theory Spec2Isabelle
  imports Main "HOL-Library.Sublist" "HOL-Library.Multiset" "HOL-Library.AList"
    "HOL-Library.Code_Target_Nat"
begin

section \<open>Python values used by news\_scraper\_hybrid.py\<close>

text \<open>
  A Python \<open>str\<close> is a sequence of Unicode code points, so it is modelled as a list of
  natural numbers (slices such as \<open>[:10]\<close> count code points). Program literals that are
  plain ASCII are written with \<open>ascii\<close>; the Chinese literals of the source are given by
  their code points. The keys of an article dictionary are the fixed ASCII literals
  \<open>'title'\<close>, \<open>'url'\<close>, ... of the source and stay Isabelle strings.
\<close>

type_synonym pystr = "nat list"

definition ascii :: "string \<Rightarrow> pystr" where
  "ascii s = map of_char s"

text \<open>
  The values stored in an article dictionary: a string, or \<open>None\<close> where the provider's
  JSON has \<open>null\<close>.
\<close>

datatype pyval = PNone | PStr pystr

text \<open>Truth value of \<open>if v:\<close>.\<close>

fun truthy :: "pyval \<Rightarrow> bool" where
  "truthy PNone = False"
| "truthy (PStr s) = (s \<noteq> [])"

text \<open>Interpolation \<open>f"{v}"\<close>.\<close>

fun py_format :: "pyval \<Rightarrow> pystr" where
  "py_format PNone = ascii ''None''"
| "py_format (PStr s) = s"

text \<open>
  A \<open>dict\<close> is an association list in insertion order with pairwise distinct keys;
  \<open>d.get(k, default)\<close> is \<open>dict_get\<close>, \<open>d[k] = v\<close> is \<open>AList.update\<close> (it replaces the
  value in place when the key is present and appends the pair otherwise, as Python does).
\<close>

type_synonym ('k, 'v) pydict = "('k \<times> 'v) list"

definition dict_get :: "('k, 'v) pydict \<Rightarrow> 'k \<Rightarrow> 'v \<Rightarrow> 'v" where
  "dict_get d k dflt = (case map_of d k of None \<Rightarrow> dflt | Some v \<Rightarrow> v)"

definition dict_keys :: "('k, 'v) pydict \<Rightarrow> 'k list" where
  "dict_keys d = map fst d"

type_synonym article = "(string, pyval) pydict"

text \<open>
  The name of the fallback category, the literal that \<open>_categorize_article\<close> returns last:
  the two code points U+5176 U+4ED6.
\<close>

definition fallback :: pystr where
  "fallback = [0x5176, 0x4ED6]"

text \<open>
  The exceptions that leave a function of the program: the built-in ones by their class,
  \<open>NewsScraperError\<close> with its message.
\<close>

datatype error =
    KeyError
  | AttributeError
  | TypeError
  | OSError
  | UnicodeDecodeError
  | NewsScraperError pystr

section \<open>Deduplication (scrape\_news, the loop over all\_articles)\<close>

text \<open>\<open>url = article.get('url', '')\<close>\<close>

definition article_url :: "article \<Rightarrow> pyval" where
  "article_url a = dict_get a ''url'' (PStr [])"

text \<open>
  \<^verbatim>\<open>
  seen_urls = set()
  unique_articles = []
  for article in all_articles:
      url = article.get('url', '')
      if url and url not in seen_urls:
          seen_urls.add(url)
          unique_articles.append(article)
  \<close>
\<close>

fun dedup_loop :: "article list \<Rightarrow> pyval set \<Rightarrow> article list \<Rightarrow> article list" where
  "dedup_loop [] seen_urls unique = unique"
| "dedup_loop (a # rest) seen_urls unique =
     (let url = article_url a in
      if truthy url \<and> url \<notin> seen_urls
      then dedup_loop rest (insert url seen_urls) (unique @ [a])
      else dedup_loop rest seen_urls unique)"

definition unique_articles :: "article list \<Rightarrow> article list" where
  "unique_articles all_articles = dedup_loop all_articles {} []"

section \<open>Categorization (\_match\_keywords, \_categorize\_article)\<close>

text \<open>
  The taxonomy \<open>self.keywords\<close>: a dictionary from category name to its list of keywords,
  in the order of the configuration file.
\<close>

type_synonym taxonomy = "(pystr, pystr list) pydict"

text \<open>The substring test \<open>needle in haystack\<close> on strings.\<close>

fun py_in :: "'a list \<Rightarrow> 'a list \<Rightarrow> bool" where
  "py_in needle [] = (needle = [])"
| "py_in needle (c # rest) = (prefix needle (c # rest) \<or> py_in needle rest)"

text \<open>
  \<open>str.lower\<close> depends on the Unicode case tables, which are no part of the repository:
  the functions below take it as the parameter \<open>lower\<close>, and every theorem holds for any
  such function. \<open>ascii_lower\<close>, its restriction to the Basic Latin letters, instantiates
  it in the examples.
\<close>

definition ascii_lower :: "pystr \<Rightarrow> pystr" where
  "ascii_lower s = map (\<lambda>c. if 65 \<le> c \<and> c \<le> 90 then c + 32 else c) s"

text \<open>
  \<^verbatim>\<open>
  for keyword in keywords:
      if keyword.lower() in text_lower:
          return True
  return False
  \<close>
\<close>

fun any_keyword :: "(pystr \<Rightarrow> pystr) \<Rightarrow> pystr list \<Rightarrow> pystr \<Rightarrow> bool" where
  "any_keyword lower [] text_lower = False"
| "any_keyword lower (keyword # keywords) text_lower =
     (if py_in (lower keyword) text_lower then True
      else any_keyword lower keywords text_lower)"

text \<open>
  \<^verbatim>\<open>
  def _match_keywords(self, text, category):
      if not text or category not in self.keywords:
          return False
      text_lower = text.lower()
      keywords = self.keywords[category]
      ...
  \<close>
\<close>

definition match_keywords :: "(pystr \<Rightarrow> pystr) \<Rightarrow> taxonomy \<Rightarrow> pystr \<Rightarrow> pystr \<Rightarrow> bool" where
  "match_keywords lower self_keywords text category =
     (if text = [] then False
      else case map_of self_keywords category of
             None \<Rightarrow> False
           | Some keywords \<Rightarrow> any_keyword lower keywords (lower text))"

text \<open>
  \<^verbatim>\<open>
  title = article.get('title', '')
  description = article.get('description', '')
  text = f"{title} {description}"
  \<close>
\<close>

definition article_text :: "article \<Rightarrow> pystr" where
  "article_text a =
     py_format (dict_get a ''title'' (PStr [])) @ ascii '' '' @
     py_format (dict_get a ''description'' (PStr []))"

text \<open>
  \<^verbatim>\<open>
  for category in self.keywords.keys():
      if self._match_keywords(text, category):
          return category
  return <fallback>
  \<close>
\<close>

fun categorize_loop :: "(pystr \<Rightarrow> pystr) \<Rightarrow> taxonomy \<Rightarrow> pystr \<Rightarrow> pystr list \<Rightarrow> pystr" where
  "categorize_loop lower self_keywords text [] = fallback"
| "categorize_loop lower self_keywords text (category # rest) =
     (if match_keywords lower self_keywords text category then category
      else categorize_loop lower self_keywords text rest)"

definition categorize_article :: "(pystr \<Rightarrow> pystr) \<Rightarrow> taxonomy \<Rightarrow> article \<Rightarrow> pystr" where
  "categorize_article lower self_keywords a =
     categorize_loop lower self_keywords (article_text a) (dict_keys self_keywords)"

section \<open>Grouping by category (scrape\_news, after deduplication)\<close>

text \<open>
  \<^verbatim>\<open>
  categorized_news = {category: [] for category in self.keywords.keys()}
  categorized_news[<fallback>] = []
  \<close>
\<close>

definition init_categories :: "taxonomy \<Rightarrow> (pystr, article list) pydict" where
  "init_categories self_keywords =
     AList.update fallback []
       (foldl (\<lambda>d category. AList.update category [] d) [] (dict_keys self_keywords))"

text \<open>
  \<open>d[k].append(a)\<close>: a \<open>KeyError\<close> when the key is absent, otherwise the list stored
  under \<open>k\<close> grows by \<open>a\<close> (every list of \<open>categorized_news\<close> is a fresh object, so no
  other entry changes).
\<close>

definition dict_append ::
  "('k, 'v list) pydict \<Rightarrow> 'k \<Rightarrow> 'v \<Rightarrow> error + ('k, 'v list) pydict" where
  "dict_append d k a =
     (case map_of d k of
        None \<Rightarrow> Inl KeyError
      | Some l \<Rightarrow> Inr (AList.update k (l @ [a]) d))"

text \<open>
  \<^verbatim>\<open>
  for article in unique_articles:
      category = self._categorize_article(article)
      categorized_news[category].append(article)
  return categorized_news
  \<close>
\<close>

fun file_articles ::
  "(pystr \<Rightarrow> pystr) \<Rightarrow> taxonomy \<Rightarrow> article list \<Rightarrow> (pystr, article list) pydict
     \<Rightarrow> error + (pystr, article list) pydict" where
  "file_articles lower self_keywords [] categorized_news = Inr categorized_news"
| "file_articles lower self_keywords (a # rest) categorized_news =
     (case dict_append categorized_news (categorize_article lower self_keywords a) a of
        Inl e \<Rightarrow> Inl e
      | Inr d \<Rightarrow> file_articles lower self_keywords rest d)"

definition categorize_news ::
  "(pystr \<Rightarrow> pystr) \<Rightarrow> taxonomy \<Rightarrow> article list \<Rightarrow> error + (pystr, article list) pydict" where
  "categorize_news lower self_keywords unique =
     file_articles lower self_keywords unique (init_categories self_keywords)"

section \<open>The digest for the summarizer (DeepSeekSummarizer)\<close>

text \<open>
  The characters \<open>str.strip()\<close> removes: the code points for which \<open>str.isspace\<close> holds.
\<close>

definition is_space :: "nat \<Rightarrow> bool" where
  "is_space c =
     ((9 \<le> c \<and> c \<le> 13) \<or> (28 \<le> c \<and> c \<le> 32) \<or> c = 133 \<or> c = 160 \<or> c = 5760
      \<or> (8192 \<le> c \<and> c \<le> 8202) \<or> c = 8232 \<or> c = 8233 \<or> c = 8239 \<or> c = 8287
      \<or> c = 12288)"

definition py_strip :: "pystr \<Rightarrow> pystr" where
  "py_strip s = rev (dropWhile is_space (rev (dropWhile is_space s)))"

text \<open>The decimal digits of a number, as \<open>f"{n}"\<close> prints a non-negative \<open>int\<close>.\<close>

fun str_of_nat :: "nat \<Rightarrow> pystr" where
  "str_of_nat n = (if n < 10 then [48 + n] else str_of_nat (n div 10) @ [48 + n mod 10])"

declare str_of_nat.simps [simp del]

text \<open>\<open>sep.join(parts)\<close>\<close>

fun py_join :: "pystr \<Rightarrow> pystr list \<Rightarrow> pystr" where
  "py_join sep [] = []"
| "py_join sep [p] = p"
| "py_join sep (p # q # rest) = p @ sep @ py_join sep (q # rest)"

type_synonym news_data = "(pystr, article list) pydict"

text \<open>
  The heading of a category in the digest,
  \<open>f"\n[{category}<lei>]({len(articles)}<pian>)"\<close>, the brackets being U+3010 and
  U+3011, \<open><lei>\<close> U+7C7B and \<open><pian>\<close> U+7BC7.
\<close>

definition digest_heading :: "pystr \<Rightarrow> article list \<Rightarrow> pystr" where
  "digest_heading category articles =
     [10, 0x3010] @ category @ [0x7C7B, 0x3011, 40] @ str_of_nat (length articles) @ [0x7BC7, 41]"

text \<open>
  \<^verbatim>\<open>
  for idx, article in enumerate(articles[:10], 1):
      title = article.get('title', '').strip()
      if title:
          text_parts.append(f"{idx}. {title}")
  \<close>
  \<open>None.strip()\<close> raises \<open>AttributeError\<close>.
\<close>

fun title_lines :: "nat \<Rightarrow> article list \<Rightarrow> pystr list \<Rightarrow> error + pystr list" where
  "title_lines idx [] text_parts = Inr text_parts"
| "title_lines idx (article # rest) text_parts =
     (case dict_get article ''title'' (PStr []) of
        PNone \<Rightarrow> Inl AttributeError
      | PStr t \<Rightarrow>
          (let title = py_strip t in
           if title \<noteq> []
           then title_lines (idx + 1) rest (text_parts @ [str_of_nat idx @ ascii ''. '' @ title])
           else title_lines (idx + 1) rest text_parts))"

text \<open>
  \<^verbatim>\<open>
  for category, articles in news_data.items():
      if not articles or category == <fallback>:
          continue
      text_parts.append(<heading>)
      # at most the first 10 of every category
      for idx, article in enumerate(articles[:10], 1): ...
  \<close>
\<close>

fun prepare_parts :: "news_data \<Rightarrow> pystr list \<Rightarrow> error + pystr list" where
  "prepare_parts [] text_parts = Inr text_parts"
| "prepare_parts ((category, articles) # rest) text_parts =
     (if articles = [] \<or> category = fallback then prepare_parts rest text_parts
      else case title_lines 1 (take 10 articles)
                  (text_parts @ [digest_heading category articles]) of
             Inl e \<Rightarrow> Inl e
           | Inr parts \<Rightarrow> prepare_parts rest parts)"

text \<open>\<open>_prepare_news_text\<close>: \<open>return '\n'.join(text_parts)\<close>\<close>

definition prepare_news_text :: "news_data \<Rightarrow> error + pystr" where
  "prepare_news_text news_data =
     (case prepare_parts news_data [] of
        Inl e \<Rightarrow> Inl e
      | Inr text_parts \<Rightarrow> Inr (py_join [10] text_parts))"

text \<open>
  The world outside the process: the requests sent to the providers and to the
  summarization service so far, and the files written.
\<close>

datatype request =
    TopHeadlines pystr pystr
  | SearchEverything pystr
  | SourceBuild pystr
  | ChatCompletion int int pystr

record world =
  requests :: "request list"
  files :: "(pystr, pystr) pydict"

text \<open>
  A \<open>DeepSeekSummarizer\<close>: its configuration and the remote service. The prompt sent is a
  fixed template around \<open>min_length\<close>, \<open>max_length\<close> and the digest, so the service is a
  function of these three: \<open>None\<close> when the call raises, otherwise the
  \<open>message.content\<close> of the first choice (a string, or \<open>None\<close>).
\<close>

record deepseek =
  ds_config :: "(string, int) pydict"
  ds_client :: "int \<Rightarrow> int \<Rightarrow> pystr \<Rightarrow> pyval option"

text \<open>
  \<^verbatim>\<open>
  news_text = self._prepare_news_text(news_data)
  if not news_text.strip():
      return ""
  min_length = self.config.get('min_length', 300)
  max_length = self.config.get('max_length', 500)
  prompt = ...
  try:
      response = self.client.chat.completions.create(...)
      summary = response.choices[0].message.content.strip()
      return summary
  except Exception as e:
      return ""
  \<close>
\<close>

definition generate_daily_summary ::
  "deepseek \<Rightarrow> news_data \<Rightarrow> world \<Rightarrow> (error + pystr) \<times> world" where
  "generate_daily_summary self news_data w =
     (case prepare_news_text news_data of
        Inl e \<Rightarrow> (Inl e, w)
      | Inr news_text \<Rightarrow>
          if py_strip news_text = [] then (Inr [], w)
          else
            (let min_length = dict_get (ds_config self) ''min_length'' 300;
                 max_length = dict_get (ds_config self) ''max_length'' 500;
                 w' = w\<lparr>requests := requests w @ [ChatCompletion min_length max_length news_text]\<rparr>
             in case ds_client self min_length max_length news_text of
                  None \<Rightarrow> (Inr [], w')
                | Some PNone \<Rightarrow> (Inr [], w')
                | Some (PStr content) \<Rightarrow> (Inr (py_strip content), w')))"

text \<open>
  Closed forms in which the properties of the digest are stated. The categories that
  contribute to the digest; the title of a record as the digest shows it; and the
  numbered title lines of a category: the records are numbered from 1 and those with a
  non-blank title give a line.
\<close>

definition digest_categories :: "news_data \<Rightarrow> news_data" where
  "digest_categories news_data =
     filter (\<lambda>(category, articles). articles \<noteq> [] \<and> category \<noteq> fallback) news_data"

definition stripped_title :: "article \<Rightarrow> pystr" where
  "stripped_title a = (case dict_get a ''title'' (PStr []) of PNone \<Rightarrow> [] | PStr t \<Rightarrow> py_strip t)"

definition numbered_titles :: "nat \<Rightarrow> article list \<Rightarrow> pystr list" where
  "numbered_titles start articles =
     map (\<lambda>(idx, a). str_of_nat idx @ ascii ''. '' @ stripped_title a)
       (filter (\<lambda>(idx, a). stripped_title a \<noteq> []) (enumerate start articles))"

definition titles_are_strings :: "article list \<Rightarrow> bool" where
  "titles_are_strings articles = list_all (\<lambda>a. dict_get a ''title'' (PStr []) \<noteq> PNone) articles"

section \<open>The provider adapters\<close>

text \<open>
  The answers of the outside world are parameters of the model (\<open>env\<close>, below): what
  \<open>NewsAPIIntegration.get_top_headlines\<close> and \<open>search_everything\<close> return and what
  \<open>newspaper\<close> finds.

  Both methods of \<open>NewsAPIIntegration\<close> end with
  \<^verbatim>\<open>
  try:
      ...
      data = response.json()
      if data.get('status') == 'ok':
          return data.get('articles', [])
      else:
          return []
  except Exception as e:
      return []
  \<close>
  so they return \<open>[]\<close> on any failure and otherwise whatever the member \<open>articles\<close> of
  the answer holds, which the provider decides. Such an answer is modelled as
  \<open>newsapi_article option list option\<close>: the outer \<open>None\<close> is a value that \<open>for article in
  articles\<close> cannot iterate (\<open>null\<close>, a number), a list stands for the sequence of values
  the loop sees, and an inner \<open>None\<close> is a value that is no JSON object (\<open>null\<close>, a string, a
  number, a list), on which \<open>article.get\<close> raises.

  An item that is an object has members \<open>title\<close>, \<open>url\<close>, \<open>publishedAt\<close> and
  \<open>description\<close> that are strings or \<open>null\<close>, and a member \<open>source\<close> that is an object or
  not; each member may be absent.
\<close>

datatype source_member = SourceAbsent | SourceNotObject | SourceObj "(string, pyval) pydict"

record newsapi_article =
  na_title :: "pyval option"
  na_url :: "pyval option"
  na_source :: source_member
  na_publishedAt :: "pyval option"
  na_description :: "pyval option"

text \<open>\<open>item.get(member, default)\<close> on such an object.\<close>

definition json_get :: "'a option \<Rightarrow> 'a \<Rightarrow> 'a" where
  "json_get member dflt = (case member of None \<Rightarrow> dflt | Some v \<Rightarrow> v)"

text \<open>The sentinel \<open>'\u672A\u77E5'\<close> (unknown) for a missing date.\<close>

definition unknown_date :: pystr where
  "unknown_date = [0x672A, 0x77E5]"

text \<open>
  \<open>article.get('source', {}).get('name', 'NewsAPI')\<close>; on \<open>null\<close> or another value that
  is no object the second \<open>get\<close> raises \<open>AttributeError\<close>, which nothing in
  \<open>scrape_from_newsapi\<close> catches.
\<close>

definition newsapi_source_name :: "newsapi_article \<Rightarrow> error + pyval" where
  "newsapi_source_name item =
     (case na_source item of
        SourceAbsent \<Rightarrow> Inr (PStr (ascii ''NewsAPI''))
      | SourceNotObject \<Rightarrow> Inl AttributeError
      | SourceObj d \<Rightarrow> Inr (dict_get d ''name'' (PStr (ascii ''NewsAPI''))))"

text \<open>
  \<open>article.get('publishedAt', '')[:10] if article.get('publishedAt') else '\u672A\u77E5'\<close>
\<close>

definition newsapi_publish_date :: "newsapi_article \<Rightarrow> pyval" where
  "newsapi_publish_date item =
     (case json_get (na_publishedAt item) PNone of
        PNone \<Rightarrow> PStr unknown_date
      | PStr s \<Rightarrow> if s \<noteq> [] then PStr (take 10 s) else PStr unknown_date)"

text \<open>
  \<^verbatim>\<open>
  all_articles.append({
      'title': article.get('title', ''),
      'url': article.get('url', ''),
      'source': article.get('source', {}).get('name', 'NewsAPI'),
      'region': f"NewsAPI-{country}",
      'publish_date': ...,
      'description': article.get('description', '')
  })
  \<close>
\<close>

definition newsapi_record :: "pystr \<Rightarrow> newsapi_article \<Rightarrow> error + article" where
  "newsapi_record region item =
     (case newsapi_source_name item of
        Inl e \<Rightarrow> Inl e
      | Inr source \<Rightarrow>
          Inr [(''title'', json_get (na_title item) (PStr [])),
               (''url'', json_get (na_url item) (PStr [])),
               (''source'', source),
               (''region'', PStr region),
               (''publish_date'', newsapi_publish_date item),
               (''description'', json_get (na_description item) (PStr []))])"

text \<open>
  \<open>for article in articles: all_articles.append({...})\<close> over the values of a list: the
  first \<open>article.get\<close> raises \<open>AttributeError\<close> on a value that is no object.
\<close>

fun append_newsapi ::
  "pystr \<Rightarrow> newsapi_article option list \<Rightarrow> article list \<Rightarrow> error + article list" where
  "append_newsapi region [] all_articles = Inr all_articles"
| "append_newsapi region (None # rest) all_articles = Inl AttributeError"
| "append_newsapi region (Some item # rest) all_articles =
     (case newsapi_record region item of
        Inl e \<Rightarrow> Inl e
      | Inr r \<Rightarrow> append_newsapi region rest (all_articles @ [r]))"

text \<open>
  The same loop over what the integration returned: \<open>for article in None\<close> raises
  \<open>TypeError\<close>.
\<close>

definition append_answer ::
  "pystr \<Rightarrow> newsapi_article option list option \<Rightarrow> article list \<Rightarrow> error + article list" where
  "append_answer region articles all_articles =
     (case articles of
        None \<Rightarrow> Inl TypeError
      | Some items \<Rightarrow> append_newsapi region items all_articles)"

text \<open>
  What \<open>newspaper\<close> gives for one article that was downloaded and parsed; the date is
  already formatted by \<open>strftime("%Y-%m-%d")\<close>, \<open>None\<close> when the article has none.
\<close>

record np_article =
  np_title :: pystr
  np_url :: pystr
  np_publish_date :: "pystr option"
  np_text :: pystr

text \<open>
  \<^verbatim>\<open>
  articles.append({
      'title': article.title,
      'url': article.url,
      'source': url,
      'publish_date': article.publish_date.strftime("%Y-%m-%d") if article.publish_date else <unknown>,
      'description': article.text[:200] + '...' if article.text else ''
  })
  \<close>
\<close>

definition np_record :: "pystr \<Rightarrow> np_article \<Rightarrow> article" where
  "np_record url a =
     [(''title'', PStr (np_title a)),
      (''url'', PStr (np_url a)),
      (''source'', PStr url),
      (''publish_date'', PStr (case np_publish_date a of None \<Rightarrow> unknown_date | Some d \<Rightarrow> d)),
      (''description'', PStr (if np_text a \<noteq> [] then take 200 (np_text a) @ ascii ''...'' else []))]"

text \<open>
  The loop of \<open>fetch_from_source\<close> over the article urls; \<open>None\<close> stands for an article whose
  download or parsing raised, which the loop skips (\<open>except Exception: continue\<close>).
\<close>

fun fetch_loop :: "pystr \<Rightarrow> np_article option list \<Rightarrow> article list \<Rightarrow> article list" where
  "fetch_loop url [] articles = articles"
| "fetch_loop url (None # rest) articles = fetch_loop url rest articles"
| "fetch_loop url (Some a # rest) articles = fetch_loop url rest (articles @ [np_record url a])"

text \<open>The slice \<open>xs[:n]\<close> for an \<open>int\<close> \<open>n\<close>.\<close>

definition slice_to :: "int \<Rightarrow> 'a list \<Rightarrow> 'a list" where
  "slice_to n xs = (if 0 \<le> n then take (nat n) xs else take (length xs - nat (- n)) xs)"

text \<open>
  The configuration file, when it holds a JSON object: every key may be absent
  (\<open>self.config.get(key, default)\<close>). The member \<open>keywords\<close> is the taxonomy when it is an
  object from category names to lists of strings; \<open>KeywordsOther\<close> is any value that is no
  object (\<open>null\<close>, a list, a string, a number), which has neither \<open>items\<close> nor \<open>keys\<close>.
  The other members are taken to have the types the program expects.
\<close>

datatype keywords_value = KeywordsDict taxonomy | KeywordsOther

record newsapi_config =
  fetch_top_headlines :: "bool option"
  countries :: "pystr list option"
  categories :: "pystr list option"
  search_by_keywords :: "bool option"

record config_json =
  c_keywords :: "keywords_value option"
  c_language :: "pystr option"
  c_use_newsapi :: "bool option"
  c_newsapi_key :: "pystr option"
  c_newsapi_config :: "newsapi_config option"
  c_use_newspaper :: "bool option"
  c_news_sources :: "(pystr, pystr list) pydict option"
  c_max_articles :: "int option"
  c_use_deepseek_summary :: "bool option"
  c_deepseek_api_key :: "pystr option"
  c_deepseek_summary_config :: "(string, int) pydict option"

text \<open>
  What \<open>json.load\<close> returns: a JSON object, or any other JSON value (a list, a string, a
  number, \<open>true\<close>, \<open>null\<close>).
\<close>

datatype config_value = ConfigObject config_json | ConfigOther

text \<open>
  What \<open>open(self.config_path, 'r', encoding='utf-8')\<close> and \<open>json.load(f)\<close> do: the file
  does not exist (\<open>FileNotFoundError\<close>); it cannot be opened for another reason
  (\<open>OpenFails\<close>: another \<open>OSError\<close> such as \<open>PermissionError\<close> or \<open>IsADirectoryError\<close>);
  its bytes are not UTF-8 (\<open>NotUTF8\<close>: reading raises \<open>UnicodeDecodeError\<close>); its text is
  not JSON (\<open>JSONDecodeError\<close> with the decoder's message); or it parses to a value.
\<close>

datatype config_file_result =
    FileNotFoundError
  | OpenFails
  | NotUTF8
  | JSONDecodeError pystr
  | Parsed config_value

text \<open>
  The outside world: the Unicode case mapping \<open>str.lower\<close>, the configuration file, the
  libraries that can be imported, the answers of the providers and of the summarization
  service, and the clock (\<open>today\<close> is \<open>strftime("%Y-%m-%d")\<close>, \<open>now\<close> the full time stamp).
\<close>

record env =
  str_lower :: "pystr \<Rightarrow> pystr"
  config_file :: config_file_result
  requests_installed :: bool
  newspaper_installed :: bool
  openai_client :: "(int \<Rightarrow> int \<Rightarrow> pystr \<Rightarrow> pyval option) option"
  top_headlines :: "pystr \<Rightarrow> pystr \<Rightarrow> newsapi_article option list option"
  search_everything :: "pystr \<Rightarrow> newsapi_article option list option"
  source_articles :: "pystr \<Rightarrow> np_article option list option"
  today :: pystr
  now :: pystr

text \<open>The attributes of a \<open>HybridNewsScraper\<close>; \<open>newsapi\<close> and \<open>newspaper\<close> tell whether the
  attribute holds an integration object or \<open>None\<close>.\<close>

record scraper =
  config :: config_json
  self_keywords :: keywords_value
  language :: pystr
  use_newsapi :: bool
  newsapi_key :: pystr
  newsapi :: bool
  use_newspaper :: bool
  news_sources :: "(pystr, pystr list) pydict"
  max_articles :: int
  newspaper :: bool
  use_deepseek :: bool
  deepseek_api_key :: pystr
  deepseek :: "deepseek option"

text \<open>
  \<open>scrape_from_newsapi\<close>, the headlines:
  \<^verbatim>\<open>
  for country in countries:
      for category in categories:
          articles = self.newsapi.get_top_headlines(category=category, country=country, ...)
          for article in articles: all_articles.append({... 'region': f"NewsAPI-{country}" ...})
  \<close>
\<close>

fun headlines_categories ::
  "env \<Rightarrow> pystr \<Rightarrow> pystr list \<Rightarrow> article list \<Rightarrow> world \<Rightarrow> (error + article list) \<times> world" where
  "headlines_categories e country [] all_articles w = (Inr all_articles, w)"
| "headlines_categories e country (category # rest) all_articles w =
     (let w' = w\<lparr>requests := requests w @ [TopHeadlines country category]\<rparr> in
      case append_answer (ascii ''NewsAPI-'' @ country) (top_headlines e country category)
             all_articles of
        Inl err \<Rightarrow> (Inl err, w')
      | Inr all_articles' \<Rightarrow> headlines_categories e country rest all_articles' w')"

fun headlines_countries ::
  "env \<Rightarrow> pystr list \<Rightarrow> pystr list \<Rightarrow> article list \<Rightarrow> world \<Rightarrow> (error + article list) \<times> world" where
  "headlines_countries e [] cats all_articles w = (Inr all_articles, w)"
| "headlines_countries e (country # rest) cats all_articles w =
     (case headlines_categories e country cats all_articles w of
        (Inl err, w') \<Rightarrow> (Inl err, w')
      | (Inr all_articles', w') \<Rightarrow> headlines_countries e rest cats all_articles' w')"

text \<open>
  \<open>scrape_from_newsapi\<close>, the search:
  \<^verbatim>\<open>
  for category, keywords in self.keywords.items():
      search_keywords = keywords[:3]
      for keyword in search_keywords:
          articles = self.newsapi.search_everything(q=keyword, ...)
          for article in articles: all_articles.append({... 'region': "NewsAPI-<search>" ...})
  \<close>
  The region is \<open>NewsAPI-\u641C\u7D22\<close>.
\<close>

fun search_keywords ::
  "env \<Rightarrow> pystr list \<Rightarrow> article list \<Rightarrow> world \<Rightarrow> (error + article list) \<times> world" where
  "search_keywords e [] all_articles w = (Inr all_articles, w)"
| "search_keywords e (keyword # rest) all_articles w =
     (let w' = w\<lparr>requests := requests w @ [SearchEverything keyword]\<rparr> in
      case append_answer (ascii ''NewsAPI-'' @ [0x641C, 0x7D22]) (search_everything e keyword)
             all_articles of
        Inl err \<Rightarrow> (Inl err, w')
      | Inr all_articles' \<Rightarrow> search_keywords e rest all_articles' w')"

fun search_categories ::
  "env \<Rightarrow> taxonomy \<Rightarrow> article list \<Rightarrow> world \<Rightarrow> (error + article list) \<times> world" where
  "search_categories e [] all_articles w = (Inr all_articles, w)"
| "search_categories e ((category, kws) # rest) all_articles w =
     (case search_keywords e (take 3 kws) all_articles w of
        (Inl err, w') \<Rightarrow> (Inl err, w')
      | (Inr all_articles', w') \<Rightarrow> search_categories e rest all_articles' w')"

text \<open>
  \<open>self.keywords.items()\<close> and \<open>self.keywords.keys()\<close>: an \<open>AttributeError\<close> when the
  configured value is no dictionary.
\<close>

definition keywords_items :: "keywords_value \<Rightarrow> error + taxonomy" where
  "keywords_items k = (case k of KeywordsDict t \<Rightarrow> Inr t | KeywordsOther \<Rightarrow> Inl AttributeError)"

definition empty_newsapi_config :: newsapi_config where
  "empty_newsapi_config =
     \<lparr>fetch_top_headlines = None, countries = None, categories = None,
      search_by_keywords = None\<rparr>"

definition scrape_from_newsapi ::
  "scraper \<Rightarrow> env \<Rightarrow> world \<Rightarrow> (error + article list) \<times> world" where
  "scrape_from_newsapi self e w =
     (if \<not> newsapi self then (Inr [], w)
      else
        let cfg = json_get (c_newsapi_config (config self)) empty_newsapi_config;
            r = (if json_get (fetch_top_headlines cfg) True
                 then headlines_countries e
                        (json_get (countries cfg) [ascii ''us''])
                        (json_get (categories cfg)
                           [ascii ''technology'', ascii ''business'', ascii ''science''])
                        [] w
                 else (Inr [], w))
        in case r of
             (Inl err, w') \<Rightarrow> (Inl err, w')
           | (Inr all_articles, w') \<Rightarrow>
               if json_get (search_by_keywords cfg) True
               then (case keywords_items (self_keywords self) of
                       Inl err \<Rightarrow> (Inl err, w')
                     | Inr kws \<Rightarrow> search_categories e kws all_articles w')
               else (Inr all_articles, w'))"

text \<open>
  \<open>NewspaperIntegration.fetch_from_source\<close>: building the source may raise, which gives
  \<open>[]\<close>; otherwise the first \<open>max_articles\<close> article urls are fetched.
\<close>

definition fetch_from_source :: "env \<Rightarrow> pystr \<Rightarrow> int \<Rightarrow> world \<Rightarrow> article list \<times> world" where
  "fetch_from_source e url maxa w =
     (let w' = w\<lparr>requests := requests w @ [SourceBuild url]\<rparr> in
      case source_articles e url of
        None \<Rightarrow> ([], w')
      | Some outcomes \<Rightarrow> (fetch_loop url (slice_to maxa outcomes) [], w'))"

text \<open>
  \<^verbatim>\<open>
  for region, sources in self.news_sources.items():
      for source_url in sources:
          articles = self.newspaper.fetch_from_source(source_url, self.max_articles)
          for article in articles:
              article['region'] = region
              all_articles.append(article)
  \<close>
\<close>

fun newspaper_sources ::
  "env \<Rightarrow> int \<Rightarrow> pystr \<Rightarrow> pystr list \<Rightarrow> article list \<Rightarrow> world \<Rightarrow> article list \<times> world" where
  "newspaper_sources e maxa region [] all_articles w = (all_articles, w)"
| "newspaper_sources e maxa region (source_url # rest) all_articles w =
     (case fetch_from_source e source_url maxa w of
        (articles, w') \<Rightarrow>
          newspaper_sources e maxa region rest
            (all_articles @ map (AList.update ''region'' (PStr region)) articles) w')"

fun newspaper_regions ::
  "env \<Rightarrow> int \<Rightarrow> (pystr, pystr list) pydict \<Rightarrow> article list \<Rightarrow> world \<Rightarrow> article list \<times> world" where
  "newspaper_regions e maxa [] all_articles w = (all_articles, w)"
| "newspaper_regions e maxa ((region, sources) # rest) all_articles w =
     (case newspaper_sources e maxa region sources all_articles w of
        (all_articles', w') \<Rightarrow> newspaper_regions e maxa rest all_articles' w')"

definition scrape_from_newspaper :: "scraper \<Rightarrow> env \<Rightarrow> world \<Rightarrow> article list \<times> world" where
  "scrape_from_newspaper self e w =
     (if \<not> newspaper self then ([], w)
      else newspaper_regions e (max_articles self) (news_sources self) [] w)"

text \<open>
  \<open>scrape_news\<close>: the adapters that are enabled, NewsAPI first, then deduplication and
  grouping, which starts with \<open>self.keywords.keys()\<close>.
\<close>

definition scrape_news :: "scraper \<Rightarrow> env \<Rightarrow> world \<Rightarrow> (error + news_data) \<times> world" where
  "scrape_news self e w =
     (case (if use_newsapi self then scrape_from_newsapi self e w else (Inr [], w)) of
        (Inl err, w1) \<Rightarrow> (Inl err, w1)
      | (Inr from_newsapi, w1) \<Rightarrow>
          (case (if use_newspaper self then scrape_from_newspaper self e w1 else ([], w1)) of
             (from_newspaper, w2) \<Rightarrow>
               (case keywords_items (self_keywords self) of
                  Inl err \<Rightarrow> (Inl err, w2)
                | Inr kws \<Rightarrow>
                    (categorize_news (str_lower e) kws
                       (unique_articles (from_newsapi @ from_newspaper)), w2))))"

section \<open>File paths (pathlib.Path)\<close>

text \<open>
  The program names its files through \<open>pathlib.Path\<close> and prints them with \<open>str\<close>, which
  does not give back the string the path was made from. On a POSIX system \<open>Path(p)\<close> keeps
  a root and the list of the components of \<open>p\<close>: the root is \<open>'/'\<close> when \<open>p\<close> starts with
  one slash or with three or more, \<open>'//'\<close> when it starts with exactly two, and empty
  otherwise; the components are the pieces of \<open>p.split('/')\<close> other than \<open>''\<close> and \<open>'.'\<close>
  (\<open>'..'\<close> is kept). \<open>str\<close> joins the components with single slashes after the root and
  gives \<open>'.'\<close> for the empty path. The code points 47 and 46 are the slash and the dot.
\<close>

text \<open>\<open>s.split(sep)\<close> for a separator of one character; \<open>cur\<close> is the piece being read.\<close>

fun py_split :: "nat \<Rightarrow> pystr \<Rightarrow> pystr \<Rightarrow> pystr list" where
  "py_split sep cur [] = [cur]"
| "py_split sep cur (c # rest) =
     (if c = sep then cur # py_split sep [] rest else py_split sep (cur @ [c]) rest)"

record path =
  p_root :: pystr
  p_tail :: "pystr list"

definition splitroot :: "pystr \<Rightarrow> pystr" where
  "splitroot p =
     (if take 1 p \<noteq> [47] then []
      else if take 1 (drop 1 p) \<noteq> [47] \<or> take 1 (drop 2 p) = [47] then [47]
      else [47, 47])"

definition parse_path :: "pystr \<Rightarrow> path" where
  "parse_path p =
     \<lparr>p_root = splitroot p,
      p_tail = filter (\<lambda>x. x \<noteq> [] \<and> x \<noteq> [46]) (py_split 47 [] p)\<rparr>"

text \<open>\<open>a / key\<close> for a string \<open>key\<close>: an absolute \<open>key\<close> replaces \<open>a\<close>.\<close>

definition path_div :: "path \<Rightarrow> pystr \<Rightarrow> path" where
  "path_div a key =
     (let k = parse_path key in
      if p_root k \<noteq> [] then k else a\<lparr>p_tail := p_tail a @ p_tail k\<rparr>)"

definition path_str :: "path \<Rightarrow> pystr" where
  "path_str a =
     (if p_root a = [] \<and> p_tail a = [] then [46] else p_root a @ py_join [47] (p_tail a))"

section \<open>The report (generate\_markdown\_report)\<close>

text \<open>\<open>d[k]\<close>: a \<open>KeyError\<close> when the key is absent.\<close>

definition dict_lookup :: "('k, 'v) pydict \<Rightarrow> 'k \<Rightarrow> error + 'v" where
  "dict_lookup d k = (case map_of d k of None \<Rightarrow> Inl KeyError | Some v \<Rightarrow> Inr v)"

text \<open>
  \<^verbatim>\<open>
  if article.get('description'):
      content.append(f"- **<summary>**: {article['description'][:150]}...\n")
  \<close>
\<close>

definition description_lines :: "article \<Rightarrow> pystr list" where
  "description_lines article =
     (case dict_get article ''description'' PNone of
        PNone \<Rightarrow> []
      | PStr s \<Rightarrow> if s \<noteq> [] then [ascii ''- **'' @ [0x6458, 0x8981] @ ascii ''**: '' @ take 150 s @ ascii ''...'' @ [10]] else [])"

text \<open>
  The lines of one article, numbered \<open>idx\<close>:
  \<^verbatim>\<open>
  content.append(f"### {idx}. {article['title']}\n")
  content.append(f"- **<link>**: [{article['url']}]({article['url']})\n")
  content.append(f"- **<source>**: {article['source']}\n")
  content.append(f"- **<region>**: {article['region']}\n")
  content.append(f"- **<date>**: {article['publish_date']}\n")
  ... description ...
  content.append("\n")
  \<close>
\<close>

definition render_article :: "nat \<Rightarrow> article \<Rightarrow> error + pystr list" where
  "render_article idx article =
     (case dict_lookup article ''title'' of Inl e \<Rightarrow> Inl e | Inr title \<Rightarrow>
      case dict_lookup article ''url'' of Inl e \<Rightarrow> Inl e | Inr url \<Rightarrow>
      case dict_lookup article ''source'' of Inl e \<Rightarrow> Inl e | Inr source \<Rightarrow>
      case dict_lookup article ''region'' of Inl e \<Rightarrow> Inl e | Inr region \<Rightarrow>
      case dict_lookup article ''publish_date'' of Inl e \<Rightarrow> Inl e | Inr publish_date \<Rightarrow>
        Inr ([ascii ''### '' @ str_of_nat idx @ ascii ''. '' @ py_format title @ [10],
              ascii ''- **'' @ [0x94FE, 0x63A5] @ ascii ''**: ['' @ py_format url @ ascii '']('' @ py_format url @ ascii '')'' @ [10],
              ascii ''- **'' @ [0x6765, 0x6E90] @ ascii ''**: '' @ py_format source @ [10],
              ascii ''- **'' @ [0x533A, 0x57DF] @ ascii ''**: '' @ py_format region @ [10],
              ascii ''- **'' @ [0x53D1, 0x5E03, 0x65E5, 0x671F] @ ascii ''**: '' @ py_format publish_date @ [10]]
             @ description_lines article @ [[10]]))"

text \<open>\<open>for idx, article in enumerate(articles, 1): ...\<close>\<close>

fun render_articles :: "nat \<Rightarrow> article list \<Rightarrow> pystr list \<Rightarrow> error + pystr list" where
  "render_articles idx [] content = Inr content"
| "render_articles idx (article # rest) content =
     (case render_article idx article of
        Inl e \<Rightarrow> Inl e
      | Inr ls \<Rightarrow> render_articles (idx + 1) rest (content @ ls))"

text \<open>
  \<^verbatim>\<open>
  for category, articles in news_data.items():
      if not articles:
          continue
      content.append(f"\n## <newspaper> {category}\n")
      content.append(f"*<total> {len(articles)} <articles>*\n\n")
      for idx, article in enumerate(articles, 1): ...
  \<close>
\<close>

fun render_categories :: "news_data \<Rightarrow> pystr list \<Rightarrow> error + pystr list" where
  "render_categories [] content = Inr content"
| "render_categories ((category, articles) # rest) content =
     (if articles = [] then render_categories rest content
      else case render_articles 1 articles
                  (content @ [[10] @ ascii ''## '' @ [0x1F4F0] @ ascii '' '' @ category @ [10],
                              ascii ''*'' @ [0x5171] @ ascii '' '' @ str_of_nat (length articles) @ ascii '' '' @ [0x7BC7, 0x65B0, 0x95FB] @ ascii ''*'' @ [10, 10]]) of
             Inl e \<Rightarrow> Inl e
           | Inr content' \<Rightarrow> render_categories rest content')"

text \<open>
  \<^verbatim>\<open>
  total_articles = sum(len(articles) for articles in news_data.values())
  content.append(f"\n## <chart> <overview>\n")
  content.append(f"- **<total>**: {total_articles}\n")
  for category, articles in news_data.items():
      if articles:
          content.append(f"- **{category}**: {len(articles)} <articles>\n")
  content.append("\n---\n")
  \<close>
\<close>

definition statistics_section :: "news_data \<Rightarrow> pystr list" where
  "statistics_section news_data =
     [[10] @ ascii ''## '' @ [0x1F4CA] @ ascii '' '' @ [0x7EDF, 0x8BA1, 0x6982, 0x89C8, 10],
      ascii ''- **'' @ [0x603B, 0x8BA1, 0x6587, 0x7AE0, 0x6570] @ ascii ''**: '' @ str_of_nat (sum_list (map (\<lambda>(category, articles). length articles) news_data)) @ [10]]
     @ concat (map (\<lambda>(category, articles).
          if articles \<noteq> []
          then [ascii ''- **'' @ category @ ascii ''**: '' @ str_of_nat (length articles) @ ascii '' '' @ [0x7BC7, 10]]
          else []) news_data)
     @ [[10] @ ascii ''---'' @ [10]]"

text \<open>
  \<^verbatim>\<open>
  content.append(f"# <daily news> - {today}\n")
  content.append(f"> <generated at>: {now}\n")
  sources_used = []
  if self.use_newsapi: sources_used.append("NewsAPI")
  if self.use_newspaper: sources_used.append("Newspaper3k")
  if self.use_deepseek: sources_used.append("DeepSeek AI <summary>")
  content.append(f"> <sources>: {', '.join(sources_used)}\n")
  content.append("---\n")
  \<close>
\<close>

definition report_header :: "scraper \<Rightarrow> env \<Rightarrow> pystr list" where
  "report_header self e =
     [ascii ''# '' @ [0x65B0, 0x95FB, 0x65E5, 0x62A5] @ ascii '' - '' @ today e @ [10],
      ascii ''> '' @ [0x751F, 0x6210, 0x65F6, 0x95F4] @ ascii '': '' @ now e @ [10],
      ascii ''> '' @ [0x6570, 0x636E, 0x6E90] @ ascii '': '' @
        py_join (ascii '', '')
          ((if use_newsapi self then [ascii ''NewsAPI''] else []) @
           (if use_newspaper self then [ascii ''Newspaper3k''] else []) @
           (if use_deepseek self then [ascii ''DeepSeek AI '' @ [0x6458, 0x8981]] else [])) @ [10],
      ascii ''---'' @ [10]]"

text \<open>
  The summary section, appended only \<open>if summary:\<close>
  \<^verbatim>\<open>
  content.append("\n## <star> <today's overview>\n\n")
  content.append("> *<generated by DeepSeek AI from today's news>*\n\n")
  content.append(f"{summary}\n\n")
  content.append("---\n")
  \<close>
\<close>

definition summary_section :: "pystr \<Rightarrow> pystr list" where
  "summary_section summary =
     (if summary \<noteq> []
      then [[10] @ ascii ''## '' @ [0x1F31F] @ ascii '' '' @ [0x4ECA, 0x65E5, 0x5BFC, 0x89C8, 0x6458, 0x8981, 10, 10],
            ascii ''> *'' @ [0x7531] @ ascii '' DeepSeek AI '' @ [0x6839, 0x636E, 0x5F53, 0x65E5, 0x65B0, 0x95FB, 0x81EA, 0x52A8, 0x751F, 0x6210] @ ascii ''*'' @ [10, 10],
            summary @ [10, 10],
            ascii ''---'' @ [10]]
      else [])"

definition report_footer :: "pystr list" where
  "report_footer = [[10] @ ascii ''---'' @ [10], ascii ''*'' @ [0x62A5, 0x544A, 0x7531, 0x65B0, 0x95FB, 0x6293, 0x53D6, 0x5DE5, 0x5177, 0x81EA, 0x52A8, 0x751F, 0x6210] @ ascii ''*'' @ [10]]"

text \<open>
  \<open>filepath = Path(output_dir) / f"news_daily_report_{today}.md"\<close>, returned as
  \<open>str(filepath)\<close>.
\<close>

definition report_path :: "env \<Rightarrow> pystr \<Rightarrow> pystr" where
  "report_path e output_dir =
     path_str (path_div (parse_path output_dir)
                 (ascii ''news_daily_report_'' @ today e @ ascii ''.md''))"

text \<open>
  \<open>if self.use_deepseek and self.deepseek: summary = self.deepseek.generate_daily_summary(news_data)\<close>;
  without a summarizer there is no summary.
\<close>

definition request_summary ::
  "scraper \<Rightarrow> news_data \<Rightarrow> world \<Rightarrow> (error + pystr) \<times> world" where
  "request_summary self news_data w =
     (case deepseek self of
        None \<Rightarrow> (Inr [], w)
      | Some ds \<Rightarrow>
          if use_deepseek self then generate_daily_summary ds news_data w else (Inr [], w))"

text \<open>
  \<open>generate_markdown_report\<close>: the content is built in the order header, summary section,
  statistics, categories, footer, and is written to the file at the end
  (\<open>f.write(''.join(content))\<close>); an exception on the way leaves no file. The file system
  is taken to accept \<open>mkdir\<close> and the write.
\<close>

definition generate_markdown_report ::
  "scraper \<Rightarrow> env \<Rightarrow> news_data \<Rightarrow> pystr \<Rightarrow> world \<Rightarrow> (error + pystr) \<times> world" where
  "generate_markdown_report self e news_data output_dir w =
     (case request_summary self news_data w of
        (Inl err, w1) \<Rightarrow> (Inl err, w1)
      | (Inr summary, w1) \<Rightarrow>
          (case render_categories news_data
                  (report_header self e @ summary_section summary @ statistics_section news_data) of
             Inl err \<Rightarrow> (Inl err, w1)
           | Inr content \<Rightarrow>
               (Inr (report_path e output_dir),
                w1\<lparr>files := AList.update (report_path e output_dir)
                               (concat (content @ report_footer)) (files w1)\<rparr>)))"

section \<open>Construction and run (\_\_init\_\_, \_load\_config, run, main)\<close>

text \<open>
  \<open>self.config_path = Path(config_path)\<close>, then \<open>_load_config\<close>:
  \<^verbatim>\<open>
  try:
      with open(self.config_path, 'r', encoding='utf-8') as f:
          return json.load(f)
  except FileNotFoundError:
      raise NewsScraperError(f"<config file does not exist>: {self.config_path}")
  except json.JSONDecodeError as e:
      raise NewsScraperError(f"<config file format error>: {e}")
  \<close>
  Only these two exceptions are caught; the message of the first prints the \<open>Path\<close>. Any
  other exception of \<open>open\<close> or of reading leaves the function as it is, and a JSON value
  of any kind is returned.
\<close>

definition load_config :: "env \<Rightarrow> pystr \<Rightarrow> error + config_value" where
  "load_config e config_path =
     (case config_file e of
        FileNotFoundError \<Rightarrow>
          Inl (NewsScraperError ([0x914D, 0x7F6E, 0x6587, 0x4EF6, 0x4E0D, 0x5B58, 0x5728] @ ascii '': '' @
                                  path_str (parse_path config_path)))
      | OpenFails \<Rightarrow> Inl OSError
      | NotUTF8 \<Rightarrow> Inl UnicodeDecodeError
      | JSONDecodeError msg \<Rightarrow>
          Inl (NewsScraperError ([0x914D, 0x7F6E, 0x6587, 0x4EF6, 0x683C, 0x5F0F, 0x9519, 0x8BEF] @ ascii '': '' @ msg))
      | Parsed v \<Rightarrow> Inr v)"

text \<open>
  \<open>HybridNewsScraper.__init__\<close>: the configuration is loaded first. The next statement,
  \<open>self.keywords = self.config.get("keywords", {})\<close>, raises \<open>AttributeError\<close> when the
  value loaded is no dictionary. An integration whose library cannot be imported is
  switched off.
\<close>

definition init :: "env \<Rightarrow> pystr \<Rightarrow> error + scraper" where
  "init e config_path =
     (case load_config e config_path of
        Inl err \<Rightarrow> Inl err
      | Inr ConfigOther \<Rightarrow> Inl AttributeError
      | Inr (ConfigObject c) \<Rightarrow>
          let use_newsapi0 = json_get (c_use_newsapi c) False;
              key = json_get (c_newsapi_key c) [];
              use_newspaper0 = json_get (c_use_newspaper c) True;
              use_deepseek0 = json_get (c_use_deepseek_summary c) False;
              ds_key = json_get (c_deepseek_api_key c) []
          in Inr \<lparr>config = c,
                  self_keywords = json_get (c_keywords c) (KeywordsDict []),
                  language = json_get (c_language c) (ascii ''zh''),
                  use_newsapi =
                    (if use_newsapi0 \<and> key \<noteq> [] \<and> \<not> requests_installed e then False
                     else use_newsapi0),
                  newsapi_key = key,
                  newsapi = (use_newsapi0 \<and> key \<noteq> [] \<and> requests_installed e),
                  use_newspaper = (use_newspaper0 \<and> newspaper_installed e),
                  news_sources = json_get (c_news_sources c) [],
                  max_articles = json_get (c_max_articles c) 50,
                  newspaper = (use_newspaper0 \<and> newspaper_installed e),
                  use_deepseek =
                    (if use_deepseek0 \<and> ds_key \<noteq> [] \<and> Option.is_none (openai_client e) then False
                     else use_deepseek0),
                  deepseek_api_key = ds_key,
                  deepseek =
                    (if use_deepseek0 \<and> ds_key \<noteq> []
                     then map_option
                            (\<lambda>client. \<lparr>ds_config = json_get (c_deepseek_summary_config c) [],
                                        ds_client = client\<rparr>)
                            (openai_client e)
                     else None)\<rparr>)"

text \<open>
  \<^verbatim>\<open>
  news_data = self.scrape_news()
  report_path = self.generate_markdown_report(news_data, output_dir)
  return report_path
  \<close>
\<close>

definition run :: "scraper \<Rightarrow> env \<Rightarrow> pystr \<Rightarrow> world \<Rightarrow> (error + pystr) \<times> world" where
  "run self e output_dir w =
     (case scrape_news self e w of
        (Inl err, w1) \<Rightarrow> (Inl err, w1)
      | (Inr news_data, w1) \<Rightarrow> generate_markdown_report self e news_data output_dir w1)"

text \<open>What every caller does: \<open>HybridNewsScraper(config_path).run(output_dir)\<close>.\<close>

definition construct_and_run ::
  "env \<Rightarrow> pystr \<Rightarrow> pystr \<Rightarrow> world \<Rightarrow> (error + pystr) \<times> world" where
  "construct_and_run e config_path output_dir w =
     (case init e config_path of
        Inl err \<Rightarrow> (Inl err, w)
      | Inr self \<Rightarrow> run self e output_dir w)"


section \<open>An example world\<close>

text \<open>
  The world of the examples. NewsAPI answers every headline request with two items, the
  first with the given title member and a description that matches the first category;
  the crawled source has one article that parses and one that does not. The
  configuration file and the summarization service are left open.
\<close>

definition example_config :: config_json where
  "example_config =
     \<lparr>c_keywords =
        Some (KeywordsDict
                [(ascii ''Tech'', [ascii ''ai'']), (ascii ''Sports'', [ascii ''football''])]),
      c_language = None,
      c_use_newsapi = Some True,
      c_newsapi_key = Some (ascii ''key''),
      c_newsapi_config =
        Some \<lparr>fetch_top_headlines = None, countries = Some [ascii ''us''],
              categories = Some [ascii ''technology''], search_by_keywords = Some False\<rparr>,
      c_use_newspaper = Some True,
      c_news_sources = Some [(ascii ''World'', [ascii ''http://paper''])],
      c_max_articles = None,
      c_use_deepseek_summary = Some True,
      c_deepseek_api_key = Some (ascii ''secret''),
      c_deepseek_summary_config = None\<rparr>"

definition example_headlines :: "pyval \<Rightarrow> newsapi_article option list option" where
  "example_headlines title =
     Some [Some \<lparr>na_title = Some title, na_url = Some (PStr (ascii ''http://a'')),
                 na_source = SourceObj [(''name'', PStr (ascii ''Wire''))],
                 na_publishedAt = Some (PStr (ascii ''2024-05-01T10:00:00Z'')),
                 na_description = Some (PStr (ascii ''AI chips''))\<rparr>,
           Some \<lparr>na_title = Some (PStr (ascii ''Cup'')), na_url = Some (PStr (ascii ''http://b'')),
                 na_source = SourceAbsent, na_publishedAt = None,
                 na_description = None\<rparr>]"

text \<open>The world in which the title of the first item is the empty string.\<close>

definition example_env ::
  "config_file_result \<Rightarrow> (int \<Rightarrow> int \<Rightarrow> pystr \<Rightarrow> pyval option) option \<Rightarrow> env" where
  "example_env file client =
     \<lparr>str_lower = ascii_lower,
      config_file = file,
      requests_installed = True,
      newspaper_installed = True,
      openai_client = client,
      top_headlines = (\<lambda>country category. example_headlines (PStr [])),
      search_everything = (\<lambda>keyword. Some []),
      source_articles = (\<lambda>url.
        Some [Some \<lparr>np_title = ascii ''Football final'', np_url = ascii ''http://paper/1'',
                    np_publish_date = None, np_text = ascii ''text''\<rparr>,
              None]),
      today = ascii ''2024-05-02'',
      now = ascii ''2024-05-02 08:00:00''\<rparr>"

definition empty_world :: world where
  "empty_world = \<lparr>requests = [], files = []\<rparr>"

text \<open>The scraper that \<open>__init__\<close> builds from \<open>example_config\<close> when no summarizer can be made.\<close>

definition example_scraper :: scraper where
  "example_scraper =
     \<lparr>config = example_config,
      self_keywords =
        KeywordsDict [(ascii ''Tech'', [ascii ''ai'']), (ascii ''Sports'', [ascii ''football''])],
      language = ascii ''zh'',
      use_newsapi = True,
      newsapi_key = ascii ''key'',
      newsapi = True,
      use_newspaper = True,
      news_sources = [(ascii ''World'', [ascii ''http://paper''])],
      max_articles = 50,
      newspaper = True,
      use_deepseek = False,
      deepseek_api_key = ascii ''secret'',
      deepseek = None\<rparr>"

text \<open>The three records the adapters produce in this world.\<close>

definition example_untitled :: article where
  "example_untitled =
     [(''title'', PStr []),
      (''url'', PStr (ascii ''http://a'')),
      (''source'', PStr (ascii ''Wire'')),
      (''region'', PStr (ascii ''NewsAPI-us'')),
      (''publish_date'', PStr (ascii ''2024-05-01'')),
      (''description'', PStr (ascii ''AI chips''))]"

definition example_cup :: article where
  "example_cup =
     [(''title'', PStr (ascii ''Cup'')),
      (''url'', PStr (ascii ''http://b'')),
      (''source'', PStr (ascii ''NewsAPI'')),
      (''region'', PStr (ascii ''NewsAPI-us'')),
      (''publish_date'', PStr unknown_date),
      (''description'', PStr [])]"

definition example_final :: article where
  "example_final =
     [(''title'', PStr (ascii ''Football final'')),
      (''url'', PStr (ascii ''http://paper/1'')),
      (''source'', PStr (ascii ''http://paper'')),
      (''publish_date'', PStr unknown_date),
      (''description'', PStr (ascii ''text...'')),
      (''region'', PStr (ascii ''World''))]"

text \<open>The world in which NewsAPI answers with \<open>"title": null\<close> in the first item.\<close>

definition null_title_env ::
  "config_file_result \<Rightarrow> (int \<Rightarrow> int \<Rightarrow> pystr \<Rightarrow> pyval option) option \<Rightarrow> env" where
  "null_title_env file client =
     (example_env file client)\<lparr>top_headlines := (\<lambda>country category. example_headlines PNone)\<rparr>"

text \<open>A summarization service that answers, and one whose call raises.\<close>

definition example_service :: "int \<Rightarrow> int \<Rightarrow> pystr \<Rightarrow> pyval option" where
  "example_service min_length max_length news_text = Some (PStr (ascii ''Chips and a final.''))"

definition failing_service :: "int \<Rightarrow> int \<Rightarrow> pystr \<Rightarrow> pyval option" where
  "failing_service min_length max_length news_text = None"

text \<open>
  The report of a run in these worlds, written out: \<open>sources\<close> is the list of sources in
  the third line, \<open>summary\<close> the lines between the header and the statistics, and \<open>title\<close>
  what the heading of the first article shows. The three records are the one of
  \<open>http://a\<close> under \<open>Tech\<close>, the crawled one under \<open>Sports\<close> and the one of
  \<open>http://b\<close> under the fallback category.
\<close>

definition example_report :: "pystr \<Rightarrow> pystr list \<Rightarrow> pystr \<Rightarrow> pystr" where
  "example_report sources summary title =
     concat
       ([ascii ''# '' @ [0x65B0, 0x95FB, 0x65E5, 0x62A5] @ ascii '' - 2024-05-02'' @ [10],
         ascii ''> '' @ [0x751F, 0x6210, 0x65F6, 0x95F4] @ ascii '': 2024-05-02 08:00:00'' @ [10],
         ascii ''> '' @ [0x6570, 0x636E, 0x6E90] @ ascii '': '' @ sources @ [10],
         ascii ''---'' @ [10]]
        @ summary @
        [[10] @ ascii ''## '' @ [0x1F4CA] @ ascii '' '' @ [0x7EDF, 0x8BA1, 0x6982, 0x89C8, 10],
         ascii ''- **'' @ [0x603B, 0x8BA1, 0x6587, 0x7AE0, 0x6570] @ ascii ''**: 3'' @ [10],
         ascii ''- **Tech**: 1 '' @ [0x7BC7, 10],
         ascii ''- **Sports**: 1 '' @ [0x7BC7, 10],
         ascii ''- **'' @ [0x5176, 0x4ED6] @ ascii ''**: 1 '' @ [0x7BC7, 10],
         [10] @ ascii ''---'' @ [10],
         [10] @ ascii ''## '' @ [0x1F4F0] @ ascii '' Tech'' @ [10],
         ascii ''*'' @ [0x5171] @ ascii '' 1 '' @ [0x7BC7, 0x65B0, 0x95FB] @ ascii ''*'' @ [10, 10],
         ascii ''### 1. '' @ title @ [10],
         ascii ''- **'' @ [0x94FE, 0x63A5] @ ascii ''**: [http://a](http://a)'' @ [10],
         ascii ''- **'' @ [0x6765, 0x6E90] @ ascii ''**: Wire'' @ [10],
         ascii ''- **'' @ [0x533A, 0x57DF] @ ascii ''**: NewsAPI-us'' @ [10],
         ascii ''- **'' @ [0x53D1, 0x5E03, 0x65E5, 0x671F] @ ascii ''**: 2024-05-01'' @ [10],
         ascii ''- **'' @ [0x6458, 0x8981] @ ascii ''**: AI chips...'' @ [10],
         [10],
         [10] @ ascii ''## '' @ [0x1F4F0] @ ascii '' Sports'' @ [10],
         ascii ''*'' @ [0x5171] @ ascii '' 1 '' @ [0x7BC7, 0x65B0, 0x95FB] @ ascii ''*'' @ [10, 10],
         ascii ''### 1. Football final'' @ [10],
         ascii ''- **'' @ [0x94FE, 0x63A5] @ ascii ''**: [http://paper/1](http://paper/1)'' @ [10],
         ascii ''- **'' @ [0x6765, 0x6E90] @ ascii ''**: http://paper'' @ [10],
         ascii ''- **'' @ [0x533A, 0x57DF] @ ascii ''**: World'' @ [10],
         ascii ''- **'' @ [0x53D1, 0x5E03, 0x65E5, 0x671F] @ ascii ''**: '' @ [0x672A, 0x77E5, 10],
         ascii ''- **'' @ [0x6458, 0x8981] @ ascii ''**: text......'' @ [10],
         [10],
         [10] @ ascii ''## '' @ [0x1F4F0] @ ascii '' '' @ [0x5176, 0x4ED6, 10],
         ascii ''*'' @ [0x5171] @ ascii '' 1 '' @ [0x7BC7, 0x65B0, 0x95FB] @ ascii ''*'' @ [10, 10],
         ascii ''### 1. Cup'' @ [10],
         ascii ''- **'' @ [0x94FE, 0x63A5] @ ascii ''**: [http://b](http://b)'' @ [10],
         ascii ''- **'' @ [0x6765, 0x6E90] @ ascii ''**: NewsAPI'' @ [10],
         ascii ''- **'' @ [0x533A, 0x57DF] @ ascii ''**: NewsAPI-us'' @ [10],
         ascii ''- **'' @ [0x53D1, 0x5E03, 0x65E5, 0x671F] @ ascii ''**: '' @ [0x672A, 0x77E5, 10],
         [10],
         [10] @ ascii ''---'' @ [10],
         ascii ''*'' @ [0x62A5, 0x544A, 0x7531, 0x65B0, 0x95FB, 0x6293, 0x53D6, 0x5DE5, 0x5177, 0x81EA, 0x52A8, 0x751F, 0x6210] @ ascii ''*'' @ [10]])"

text \<open>The summary section of a report whose summary is the answer of \<open>example_service\<close>.\<close>

definition example_summary_lines :: "pystr list" where
  "example_summary_lines =
     [[10] @ ascii ''## '' @ [0x1F31F] @ ascii '' '' @ [0x4ECA, 0x65E5, 0x5BFC, 0x89C8, 0x6458, 0x8981, 10, 10],
      ascii ''> *'' @ [0x7531] @ ascii '' DeepSeek AI '' @ [0x6839, 0x636E, 0x5F53, 0x65E5, 0x65B0, 0x95FB, 0x81EA, 0x52A8, 0x751F, 0x6210] @ ascii ''*'' @ [10, 10],
      ascii ''Chips and a final.'' @ [10, 10],
      ascii ''---'' @ [10]]"

text \<open>The digest of the example world, in which the record without a title has no line.\<close>

definition example_digest :: pystr where
  "example_digest = [10, 0x3010] @ ascii ''Tech'' @ [0x7C7B, 0x3011] @ ascii ''(1'' @ [0x7BC7] @ ascii '')'' @ [10, 10, 0x3010] @ ascii ''Sports'' @ [0x7C7B, 0x3011] @ ascii ''(1'' @ [0x7BC7] @ ascii '')'' @ [10] @ ascii ''1. Football final''"

section \<open>Vocabulary of the properties: titles\<close>

text \<open>\<open>article.get('title', '')\<close>\<close>

definition article_title :: "article \<Rightarrow> pyval" where
  "article_title a = dict_get a ''title'' (PStr [])"

section \<open>Properties of deduplication\<close>

lemma dedup_loop_acc:
  "dedup_loop xs seen acc = acc @ dedup_loop xs seen []"
proof (induction xs arbitrary: seen acc)
  case Nil
  show ?case by simp
next
  case (Cons a xs)
  show ?case
    using Cons.IH [of "insert (article_url a) seen" "acc @ [a]"]
      Cons.IH [of "insert (article_url a) seen" "[a]"]
      Cons.IH [of seen acc]
    by (simp add: Let_def)
qed

lemma dedup_loop_snoc:
  "dedup_loop (xs @ [a]) seen acc =
     (if truthy (article_url a) \<and> article_url a \<notin> seen \<union> set (map article_url xs)
      then dedup_loop xs seen acc @ [a] else dedup_loop xs seen acc)"
  by (induction xs arbitrary: seen acc) (auto simp: Let_def)

lemma unique_articles_Nil: "unique_articles [] = []"
  by (simp add: unique_articles_def)

lemma unique_articles_snoc:
  "unique_articles (xs @ [a]) =
     (if truthy (article_url a) \<and> article_url a \<notin> set (map article_url xs)
      then unique_articles xs @ [a] else unique_articles xs)"
  by (simp add: unique_articles_def dedup_loop_snoc)

lemma dedup_index_form:
  "unique_articles xs =
     map ((!) xs) (filter (\<lambda>i. truthy (article_url (xs ! i)) \<and>
        article_url (xs ! i) \<notin> set (map article_url (take i xs))) [0..<length xs])"
proof (induction xs rule: rev_induct)
  case Nil
  show ?case by (simp add: unique_articles_Nil)
next
  case (snoc a xs)
  have f: "filter (\<lambda>i. truthy (article_url ((xs @ [a]) ! i)) \<and>
        article_url ((xs @ [a]) ! i) \<notin> set (map article_url (take i (xs @ [a])))) [0..<length xs]
      = filter (\<lambda>i. truthy (article_url (xs ! i)) \<and>
        article_url (xs ! i) \<notin> set (map article_url (take i xs))) [0..<length xs]"
    by (rule filter_cong) (auto simp: nth_append)
  have m: "map ((!) (xs @ [a])) (filter (\<lambda>i. truthy (article_url (xs ! i)) \<and>
        article_url (xs ! i) \<notin> set (map article_url (take i xs))) [0..<length xs])
      = map ((!) xs) (filter (\<lambda>i. truthy (article_url (xs ! i)) \<and>
        article_url (xs ! i) \<notin> set (map article_url (take i xs))) [0..<length xs])"
    by (rule map_cong) (auto simp: nth_append)
  have u: "[0..<length (xs @ [a])] = [0..<length xs] @ [length xs]"
    by simp
  show ?case
    unfolding u filter_append map_append f m snoc.IH [symmetric]
    by (simp add: unique_articles_snoc)
qed

lemma unique_subseq: "subseq (unique_articles xs) xs"
proof (induction xs rule: rev_induct)
  case Nil
  show ?case by (simp add: unique_articles_Nil)
next
  case (snoc a xs)
  have keep: "subseq (unique_articles xs @ [a]) (xs @ [a])"
    using list_emb_append_mono [OF snoc.IH, of "[a]" "[a]"] by simp
  have drop: "subseq (unique_articles xs) (xs @ [a])"
    using list_emb_append_mono [OF snoc.IH, of "[]" "[a]"] by simp
  show ?case
    using keep drop by (simp add: unique_articles_snoc)
qed

lemma unique_set: "set (unique_articles xs) \<subseteq> set xs"
  by (induction xs rule: rev_induct) (auto simp: unique_articles_Nil unique_articles_snoc)

lemma unique_urls: "set (map article_url (unique_articles xs)) = {u \<in> set (map article_url xs). truthy u}"
  by (induction xs rule: rev_induct) (auto simp: unique_articles_Nil unique_articles_snoc)

lemma unique_distinct: "distinct (map article_url (unique_articles xs))"
proof (induction xs rule: rev_induct)
  case Nil show ?case by (simp add: unique_articles_Nil)
next
  case (snoc a xs)
  then show ?case using unique_urls [of xs] by (auto simp: unique_articles_snoc)
qed

lemma unique_truthy: "list_all (\<lambda>a. truthy (article_url a)) (unique_articles xs)"
  by (induction xs rule: rev_induct) (auto simp: unique_articles_Nil unique_articles_snoc)

lemma find_app: "find P (xs @ ys) = (case find P xs of None \<Rightarrow> find P ys | Some x \<Rightarrow> Some x)"
  by (induction xs) auto

lemma unique_find:
  "truthy u \<Longrightarrow> find (\<lambda>b. article_url b = u) (unique_articles xs) = find (\<lambda>b. article_url b = u) xs"
proof (induction xs rule: rev_induct)
  case Nil show ?case by (simp add: unique_articles_Nil)
next
  case (snoc a xs)
  then show ?case
    by (auto simp: unique_articles_snoc find_app find_None_iff split: option.splits)
qed

lemma unique_fixed:
  "distinct (map article_url xs) \<Longrightarrow> list_all (\<lambda>a. truthy (article_url a)) xs \<Longrightarrow> unique_articles xs = xs"
  by (induction xs rule: rev_induct) (auto simp: unique_articles_Nil unique_articles_snoc)

lemma unique_idem: "unique_articles (unique_articles xs) = unique_articles xs"
  by (rule unique_fixed [OF unique_distinct unique_truthy])

text \<open>
  C1. The deduplication loop keeps exactly the records at the positions \<open>i\<close> of the
  concatenated input whose url is non-empty (neither \<open>''\<close>, \<open>None\<close> nor missing) and is
  borne by no earlier record, in input order. Hence the output is a subsequence of the
  input, its urls are pairwise distinct and non-empty, and for every non-empty url the
  output's record bearing it is the first record of the input bearing it (whatever the
  other fields of later records are).
\<close>

theorem dedup_first_seen_wins:
  "unique_articles xs =
     map ((!) xs) (filter (\<lambda>i. truthy (article_url (xs ! i)) \<and>
        article_url (xs ! i) \<notin> set (map article_url (take i xs))) [0..<length xs])
   \<and> subseq (unique_articles xs) xs
   \<and> distinct (map article_url (unique_articles xs))
   \<and> list_all (\<lambda>a. truthy (article_url a)) (unique_articles xs)
   \<and> (\<forall>u. truthy u \<longrightarrow>
        find (\<lambda>b. article_url b = u) (unique_articles xs) = find (\<lambda>b. article_url b = u) xs)"
  using dedup_index_form [of xs] unique_subseq [of xs] unique_distinct [of xs]
    unique_truthy [of xs] unique_find [of _ xs]
  by blast

text \<open>
  The scenario of the specification: the adapters return urls \<open>u1, u2\<close> and \<open>u2, u3\<close>,
  the second copy of \<open>u2\<close> with another title and region; a record without url and one
  with an empty url are dropped.
\<close>

theorem dedup_first_seen_wins_witness:
  "truthy (PStr (ascii ''u2'')) \<and>
   unique_articles
     ([[(''title'', PStr (ascii ''a'')), (''url'', PStr (ascii ''u1''))],
       [(''title'', PStr (ascii ''b'')), (''url'', PStr (ascii ''u2''))],
       [(''title'', PStr (ascii ''no url''))]] @
      [[(''title'', PStr (ascii ''c'')), (''url'', PStr (ascii ''u2'')), (''region'', PStr (ascii ''r''))],
       [(''title'', PStr (ascii ''e'')), (''url'', PStr [])],
       [(''title'', PStr (ascii ''d'')), (''url'', PStr (ascii ''u3''))]])
   = [[(''title'', PStr (ascii ''a'')), (''url'', PStr (ascii ''u1''))],
      [(''title'', PStr (ascii ''b'')), (''url'', PStr (ascii ''u2''))],
      [(''title'', PStr (ascii ''d'')), (''url'', PStr (ascii ''u3''))]] \<and>
   find (\<lambda>b. article_url b = PStr (ascii ''u2''))
     ([[(''title'', PStr (ascii ''a'')), (''url'', PStr (ascii ''u1''))],
       [(''title'', PStr (ascii ''b'')), (''url'', PStr (ascii ''u2''))],
       [(''title'', PStr (ascii ''no url''))]] @
      [[(''title'', PStr (ascii ''c'')), (''url'', PStr (ascii ''u2'')), (''region'', PStr (ascii ''r''))],
       [(''title'', PStr (ascii ''e'')), (''url'', PStr [])],
       [(''title'', PStr (ascii ''d'')), (''url'', PStr (ascii ''u3''))]])
   = Some [(''title'', PStr (ascii ''b'')), (''url'', PStr (ascii ''u2''))]"
  using dedup_first_seen_wins [of
     "[[(''title'', PStr (ascii ''a'')), (''url'', PStr (ascii ''u1''))],
       [(''title'', PStr (ascii ''b'')), (''url'', PStr (ascii ''u2''))],
       [(''title'', PStr (ascii ''no url''))]] @
      [[(''title'', PStr (ascii ''c'')), (''url'', PStr (ascii ''u2'')), (''region'', PStr (ascii ''r''))],
       [(''title'', PStr (ascii ''e'')), (''url'', PStr [])],
       [(''title'', PStr (ascii ''d'')), (''url'', PStr (ascii ''u3''))]]"]
  by (simp add: unique_articles_def article_url_def dict_get_def ascii_def)

text \<open>
  C7. Deduplication is idempotent: an input whose urls are pairwise distinct and
  non-empty is returned unchanged, and deduplicating the output of the deduplication
  gives that output again.
\<close>

theorem dedup_idempotent:
  "(distinct (map article_url xs) \<and> list_all (\<lambda>a. truthy (article_url a)) xs
      \<longrightarrow> unique_articles xs = xs)
   \<and> unique_articles (unique_articles ys) = unique_articles ys"
  using unique_fixed [of xs] unique_idem [of ys] by blast

theorem dedup_idempotent_witness:
  "distinct (map article_url
      [[(''title'', PStr (ascii ''a'')), (''url'', PStr (ascii ''u1''))],
       [(''title'', PStr (ascii ''b'')), (''url'', PStr (ascii ''u2''))]]) \<and>
   list_all (\<lambda>a. truthy (article_url a))
      [[(''title'', PStr (ascii ''a'')), (''url'', PStr (ascii ''u1''))],
       [(''title'', PStr (ascii ''b'')), (''url'', PStr (ascii ''u2''))]] \<and>
   unique_articles
      [[(''title'', PStr (ascii ''a'')), (''url'', PStr (ascii ''u1''))],
       [(''title'', PStr (ascii ''b'')), (''url'', PStr (ascii ''u2''))]]
   = [[(''title'', PStr (ascii ''a'')), (''url'', PStr (ascii ''u1''))],
      [(''title'', PStr (ascii ''b'')), (''url'', PStr (ascii ''u2''))]] \<and>
   unique_articles (unique_articles
      [[(''title'', PStr (ascii ''a'')), (''url'', PStr (ascii ''u1''))],
       [(''title'', PStr (ascii ''a2'')), (''url'', PStr (ascii ''u1''))]])
   = unique_articles
      [[(''title'', PStr (ascii ''a'')), (''url'', PStr (ascii ''u1''))],
       [(''title'', PStr (ascii ''a2'')), (''url'', PStr (ascii ''u1''))]]"
  using dedup_idempotent [of
      "[[(''title'', PStr (ascii ''a'')), (''url'', PStr (ascii ''u1''))],
       [(''title'', PStr (ascii ''b'')), (''url'', PStr (ascii ''u2''))]]"
      "[[(''title'', PStr (ascii ''a'')), (''url'', PStr (ascii ''u1''))],
       [(''title'', PStr (ascii ''a2'')), (''url'', PStr (ascii ''u1''))]]"]
  by (simp add: article_url_def dict_get_def ascii_def)

section \<open>Properties of categorization and grouping\<close>





lemma categorize_loop_mem:
  "categorize_loop lower kw text cs \<in> set cs \<union> {fallback}"
  by (induction cs) auto



lemma foldl_update_keys:
  "set (map fst (foldl (\<lambda>d c. AList.update c [] d) acc cs)) = set (map fst acc) \<union> set cs"
  by (induction cs arbitrary: acc) (auto simp: dom_update)

lemma foldl_update_distinct:
  "distinct (map fst acc) \<Longrightarrow> distinct (map fst (foldl (\<lambda>d c. AList.update c [] d) acc cs))"
  by (induction cs arbitrary: acc) (auto simp: distinct_update)

lemma foldl_update_map_of:
  "map_of (foldl (\<lambda>d c. AList.update c [] d) acc cs) k =
     (if k \<in> set cs then Some [] else map_of acc k)"
  by (induction cs arbitrary: acc) (auto simp: update_conv')

lemma init_categories_keys:
  "set (dict_keys (init_categories kw)) = set (dict_keys kw) \<union> {fallback}"
  using foldl_update_keys [of "[]" "dict_keys kw"]
  by (auto simp: init_categories_def dict_keys_def dom_update)

lemma init_categories_distinct: "distinct (dict_keys (init_categories kw))"
  unfolding init_categories_def dict_keys_def
  by (rule distinct_update, rule foldl_update_distinct) simp

lemma init_categories_map_of:
  "map_of (init_categories kw) c =
     (if c \<in> set (dict_keys kw) \<union> {fallback} then Some [] else None)"
  by (simp add: init_categories_def update_conv' foldl_update_map_of)

lemma init_categories_empty: "concat (map snd (init_categories kw)) = []"
proof -
  have "\<forall>l \<in> set (map snd (init_categories kw)). l = []"
  proof
    fix l assume "l \<in> set (map snd (init_categories kw))"
    then obtain c where "(c, l) \<in> set (init_categories kw)" by auto
    then have "map_of (init_categories kw) c = Some l"
      using init_categories_distinct [of kw] by (simp add: dict_keys_def)
    then show "l = []" by (simp add: init_categories_map_of split: if_splits)
  qed
  then show ?thesis by (induction "map snd (init_categories kw)") auto
qed

lemma mset_concat_update:
  "map_of d k = Some l \<Longrightarrow>
     mset (concat (map snd (AList.update k (l @ [a]) d))) = add_mset a (mset (concat (map snd d)))"
  by (induction d) (auto split: if_splits)

lemma file_articles_inv:
  "\<forall>a \<in> set xs. map_of d (categorize_article lower kw a) \<noteq> None \<Longrightarrow>
     \<exists>res. file_articles lower kw xs d = Inr res
       \<and> dict_keys res = dict_keys d
       \<and> (\<forall>c. map_of res c =
            map_option (\<lambda>l. l @ filter (\<lambda>a. categorize_article lower kw a = c) xs) (map_of d c))
       \<and> mset (concat (map snd res)) = mset (concat (map snd d)) + mset xs"
proof (induction xs arbitrary: d)
  case Nil
  show ?case by (simp add: option.map_ident)
next
  case (Cons x xs)
  let ?k = "categorize_article lower kw x"
  from Cons.prems obtain l where l: "map_of d ?k = Some l" by auto
  let ?d = "AList.update ?k (l @ [x]) d"
  have step: "dict_append d ?k x = Inr ?d" using l by (simp add: dict_append_def)
  have keys: "dict_keys ?d = dict_keys d"
    using l by (auto simp: dict_keys_def update_keys dest: map_of_SomeD intro: rev_image_eqI)
  have dom: "\<forall>a \<in> set xs. map_of ?d (categorize_article lower kw a) \<noteq> None"
    using Cons.prems by (simp add: update_conv')
  from Cons.IH [OF dom] obtain res where res:
    "file_articles lower kw xs ?d = Inr res" "dict_keys res = dict_keys ?d"
    "\<forall>c. map_of res c =
        map_option (\<lambda>l. l @ filter (\<lambda>a. categorize_article lower kw a = c) xs) (map_of ?d c)"
    "mset (concat (map snd res)) = mset (concat (map snd ?d)) + mset xs"
    by blast
  have m: "\<forall>c. map_of res c =
      map_option (\<lambda>l. l @ filter (\<lambda>a. categorize_article lower kw a = c) (x # xs)) (map_of d c)"
    using res(3) l by (auto simp: update_conv')
  have s: "mset (concat (map snd res)) = mset (concat (map snd d)) + mset (x # xs)"
    using res(4) mset_concat_update [OF l, of x] by simp
  show ?case
    using step res(1) res(2) keys m s by simp
qed

lemma categorize_article_mem:
  "categorize_article lower kw a \<in> set (dict_keys kw) \<union> {fallback}"
  unfolding categorize_article_def by (rule categorize_loop_mem)

lemma categorize_news_result:
  "\<exists>res. categorize_news lower kw unique = Inr res
     \<and> set (dict_keys res) = set (dict_keys kw) \<union> {fallback}
     \<and> distinct (dict_keys res)
     \<and> (\<forall>c. map_of res c =
          (if c \<in> set (dict_keys kw) \<union> {fallback}
           then Some (filter (\<lambda>a. categorize_article lower kw a = c) unique) else None))
     \<and> mset (concat (map snd res)) = mset unique"
proof -
  have dom: "\<forall>a \<in> set unique. map_of (init_categories kw) (categorize_article lower kw a) \<noteq> None"
    using categorize_article_mem [of lower kw] by (simp add: init_categories_map_of)
  from file_articles_inv [OF dom] obtain res where res:
    "file_articles lower kw unique (init_categories kw) = Inr res"
    "dict_keys res = dict_keys (init_categories kw)"
    "\<forall>c. map_of res c =
        map_option (\<lambda>l. l @ filter (\<lambda>a. categorize_article lower kw a = c) unique)
          (map_of (init_categories kw) c)"
    "mset (concat (map snd res)) = mset (concat (map snd (init_categories kw))) + mset unique"
    by blast
  have m: "\<forall>c. map_of res c =
          (if c \<in> set (dict_keys kw) \<union> {fallback}
           then Some (filter (\<lambda>a. categorize_article lower kw a = c) unique) else None)"
    using res(3) by (simp add: init_categories_map_of)
  show ?thesis
    using res(1) res(2) res(4) m init_categories_keys [of kw] init_categories_distinct [of kw]
      init_categories_empty [of kw]
    by (simp add: categorize_news_def)
qed



text \<open>
  C3. Categorization returns one category name for every article and every taxonomy
  (neither \<open>_match_keywords\<close> nor \<open>_categorize_article\<close> has a failing branch), and the
  name is one of the taxonomy's categories or the fallback category.
\<close>

theorem categorize_total:
  "categorize_article lower kw a \<in> set (dict_keys kw) \<union> {fallback}"
  by (rule categorize_article_mem)

theorem categorize_total_witness:
  "categorize_article ascii_lower
      [(ascii ''Tech'', [ascii ''ai'']), (ascii ''Sports'', [ascii ''football''])]
      [(''title'', PStr (ascii ''AI breakthrough''))] = ascii ''Tech'' \<and>
   categorize_article ascii_lower
      [(ascii ''Tech'', [ascii ''ai'']), (ascii ''Sports'', [ascii ''football''])]
      [(''title'', PStr (ascii ''no match''))] = fallback \<and>
   categorize_article ascii_lower
      [(ascii ''Tech'', [ascii ''ai'']), (ascii ''Sports'', [ascii ''football''])]
      [(''title'', PStr (ascii ''no match''))]
     \<in> set (dict_keys [(ascii ''Tech'', [ascii ''ai'']), (ascii ''Sports'', [ascii ''football''])])
        \<union> {fallback}"
  using categorize_total [of ascii_lower
      "[(ascii ''Tech'', [ascii ''ai'']), (ascii ''Sports'', [ascii ''football''])]"
      "[(''title'', PStr (ascii ''no match''))]"]
  by (simp add: categorize_article_def dict_keys_def match_keywords_def article_text_def
      dict_get_def ascii_lower_def ascii_def)

text \<open>
  C4. Grouping the deduplicated records never fails. The keys of the result are the
  categories of the taxonomy and the fallback category, each once; the sequence stored
  under a category is the subsequence, in dedup order, of the records categorized to it
  (possibly empty); and all the sequences together hold every record exactly as often as
  the deduplicated input does.
\<close>

theorem categorized_partition:
  "\<exists>res. categorize_news lower kw unique = Inr res
     \<and> set (dict_keys res) = set (dict_keys kw) \<union> {fallback}
     \<and> distinct (dict_keys res)
     \<and> (\<forall>c. map_of res c =
          (if c \<in> set (dict_keys kw) \<union> {fallback}
           then Some (filter (\<lambda>a. categorize_article lower kw a = c) unique) else None))
     \<and> mset (concat (map snd res)) = mset unique"
  by (rule categorize_news_result)

theorem categorized_partition_witness:
  "categorize_news ascii_lower
      [(ascii ''Tech'', [ascii ''ai'']), (ascii ''Sports'', [ascii ''football''])]
      (unique_articles
        [[(''title'', PStr (ascii ''AI breakthrough'')), (''url'', PStr (ascii ''u1''))],
         [(''title'', PStr (ascii ''no match'')), (''url'', PStr (ascii ''u2''))],
         [(''title'', PStr (ascii ''AI again'')), (''url'', PStr (ascii ''u3''))],
         [(''title'', PStr (ascii ''AI copy'')), (''url'', PStr (ascii ''u1''))]])
   = Inr [(ascii ''Tech'',
            [[(''title'', PStr (ascii ''AI breakthrough'')), (''url'', PStr (ascii ''u1''))],
             [(''title'', PStr (ascii ''AI again'')), (''url'', PStr (ascii ''u3''))]]),
          (ascii ''Sports'', []),
          (fallback, [[(''title'', PStr (ascii ''no match'')), (''url'', PStr (ascii ''u2''))]])]"
  using categorized_partition [of ascii_lower
      "[(ascii ''Tech'', [ascii ''ai'']), (ascii ''Sports'', [ascii ''football''])]"
      "unique_articles
        [[(''title'', PStr (ascii ''AI breakthrough'')), (''url'', PStr (ascii ''u1''))],
         [(''title'', PStr (ascii ''no match'')), (''url'', PStr (ascii ''u2''))],
         [(''title'', PStr (ascii ''AI again'')), (''url'', PStr (ascii ''u3''))],
         [(''title'', PStr (ascii ''AI copy'')), (''url'', PStr (ascii ''u1''))]]"]
  by (simp add: categorize_news_def init_categories_def dict_append_def unique_articles_def
      article_url_def fallback_def
      categorize_article_def dict_keys_def match_keywords_def article_text_def
      dict_get_def ascii_lower_def ascii_def)

section \<open>Properties of the digest\<close>

lemma title_lines_closed:
  "title_lines idx articles parts =
     (if titles_are_strings articles then Inr (parts @ numbered_titles idx articles)
      else Inl AttributeError)"
proof (induction articles arbitrary: idx parts)
  case Nil
  show ?case by (simp add: titles_are_strings_def numbered_titles_def)
next
  case (Cons a articles)
  show ?case
  proof (cases "dict_get a ''title'' (PStr [])")
    case PNone
    then show ?thesis by (simp add: titles_are_strings_def)
  next
    case (PStr t)
    then show ?thesis
      using Cons.IH [of "Suc idx"]
      by (simp add: titles_are_strings_def numbered_titles_def stripped_title_def Let_def)
  qed
qed

lemma prepare_parts_closed:
  "prepare_parts news_data parts =
     (if list_all (\<lambda>(category, articles). titles_are_strings (take 10 articles))
           (digest_categories news_data)
      then Inr (parts @ concat (map (\<lambda>(category, articles).
                  digest_heading category articles # numbered_titles 1 (take 10 articles))
                (digest_categories news_data)))
      else Inl AttributeError)"
proof (induction news_data arbitrary: parts)
  case Nil
  show ?case by (simp add: digest_categories_def)
next
  case (Cons entry news_data)
  obtain category articles where entry: "entry = (category, articles)" by (cases entry)
  show ?case
  proof (cases "articles = [] \<or> category = fallback")
    case True
    then show ?thesis
      using Cons.IH [of parts] entry by (auto simp: digest_categories_def)
  next
    case False
    then have d: "digest_categories ((category, articles) # news_data) =
        (category, articles) # digest_categories news_data"
      by (simp add: digest_categories_def)
    show ?thesis
      unfolding entry d
      using False Cons.IH
      by (simp add: title_lines_closed)
  qed
qed

lemma numbered_titles_length: "length (numbered_titles start articles) \<le> length articles"
proof -
  have "length (filter (\<lambda>(idx, a). stripped_title a \<noteq> []) (enumerate start articles))
      \<le> length (enumerate start articles)"
    by (rule length_filter_le)
  then show ?thesis by (simp add: numbered_titles_def)
qed

lemma digest_categories_idem:
  "digest_categories (digest_categories news_data) = digest_categories news_data"
  by (simp add: digest_categories_def)

lemma py_strip_blank: "py_strip t = [] \<longleftrightarrow> list_all is_space t"
proof -
  have k: "(\<forall>x \<in> set (dropWhile is_space t). is_space x) \<longleftrightarrow> (\<forall>x \<in> set t. is_space x)"
  proof
    assume a: "\<forall>x \<in> set (dropWhile is_space t). is_space x"
    have "dropWhile is_space t = []"
    proof (rule ccontr)
      assume n: "dropWhile is_space t \<noteq> []"
      have "hd (dropWhile is_space t) \<in> set (dropWhile is_space t)"
        by (rule hd_in_set [OF n])
      with a have "is_space (hd (dropWhile is_space t))" by blast
      with hd_dropWhile [OF n] show False by blast
    qed
    then show "\<forall>x \<in> set t. is_space x"
      by (simp only: dropWhile_eq_Nil_conv)
  next
    assume "\<forall>x \<in> set t. is_space x"
    then show "\<forall>x \<in> set (dropWhile is_space t). is_space x"
      by (blast dest: set_dropWhileD)
  qed
  have "py_strip t = [] \<longleftrightarrow> dropWhile is_space (rev (dropWhile is_space t)) = []"
    by (simp only: py_strip_def rev_is_Nil_conv)
  also have "\<dots> \<longleftrightarrow> (\<forall>x \<in> set (dropWhile is_space t). is_space x)"
    by (simp only: dropWhile_eq_Nil_conv set_rev)
  finally show ?thesis
    by (simp only: k list_all_iff)
qed

lemma numbered_titles_index:
  "numbered_titles start xs =
     map (\<lambda>i. str_of_nat (start + i) @ ascii ''. '' @ stripped_title (xs ! i))
       (filter (\<lambda>i. stripped_title (xs ! i) \<noteq> []) [0..<length xs])"
proof (induction xs rule: rev_induct)
  case Nil
  show ?case by (simp add: numbered_titles_def)
next
  case (snoc a xs)
  have f: "filter (\<lambda>i. stripped_title ((xs @ [a]) ! i) \<noteq> []) [0..<length xs]
      = filter (\<lambda>i. stripped_title (xs ! i) \<noteq> []) [0..<length xs]"
    by (rule filter_cong) (auto simp: nth_append)
  have m: "map (\<lambda>i. str_of_nat (start + i) @ ascii ''. '' @ stripped_title ((xs @ [a]) ! i))
        (filter (\<lambda>i. stripped_title (xs ! i) \<noteq> []) [0..<length xs])
      = map (\<lambda>i. str_of_nat (start + i) @ ascii ''. '' @ stripped_title (xs ! i))
        (filter (\<lambda>i. stripped_title (xs ! i) \<noteq> []) [0..<length xs])"
    by (rule map_cong) (auto simp: nth_append)
  have n: "numbered_titles start (xs @ [a]) =
      numbered_titles start xs @
      (if stripped_title a \<noteq> []
       then [str_of_nat (start + length xs) @ ascii ''. '' @ stripped_title a] else [])"
    by (simp add: numbered_titles_def enumerate_append_eq)
  have u: "[0..<length (xs @ [a])] = [0..<length xs] @ [length xs]"
    by simp
  show ?case
    unfolding n u filter_append map_append f m snoc.IH
    by simp
qed

lemma prepare_news_text_closed:
  "prepare_news_text news_data =
     (if list_all (\<lambda>(category, articles). titles_are_strings (take 10 articles))
           (digest_categories news_data)
      then Inr (py_join [10] (concat (map (\<lambda>(category, articles).
                  digest_heading category articles # numbered_titles 1 (take 10 articles))
                (digest_categories news_data))))
      else Inl AttributeError)"
  by (simp add: prepare_news_text_def prepare_parts_closed)

text \<open>
  C9. When no title among the first ten records of a contributing category is \<open>None\<close>
  (otherwise \<open>.strip()\<close> raises \<open>AttributeError\<close> and there is no digest), the digest is the
  lines, joined by newlines, of the contributing categories in order: for each its
  heading and then the numbered titles of its first ten records, at most ten lines,
  taken at the positions \<open>0 \<dots> 9\<close> of the stored sequence in that order (a record with a
  blank title gives no line).
\<close>

theorem digest_first_ten_titles:
  "(prepare_news_text news_data = Inr text \<longleftrightarrow>
      list_all (\<lambda>(category, articles). titles_are_strings (take 10 articles))
        (digest_categories news_data) \<and>
      text = py_join [10] (concat (map (\<lambda>(category, articles).
                digest_heading category articles # numbered_titles 1 (take 10 articles))
              (digest_categories news_data))))
   \<and> length (numbered_titles 1 (take 10 articles)) \<le> 10
   \<and> numbered_titles 1 (take 10 articles) =
       map (\<lambda>i. str_of_nat (1 + i) @ ascii ''. '' @ stripped_title (articles ! i))
         (filter (\<lambda>i. stripped_title (articles ! i) \<noteq> []) [0..<min (length articles) 10])"
proof -
  have a: "prepare_news_text news_data = Inr text \<longleftrightarrow>
      list_all (\<lambda>(category, articles). titles_are_strings (take 10 articles))
        (digest_categories news_data) \<and>
      text = py_join [10] (concat (map (\<lambda>(category, articles).
                digest_heading category articles # numbered_titles 1 (take 10 articles))
              (digest_categories news_data)))"
    by (auto simp: prepare_news_text_closed)
  have b: "length (numbered_titles 1 (take 10 articles)) \<le> 10"
    using numbered_titles_length [of 1 "take 10 articles"] by simp
  have f: "filter (\<lambda>i. stripped_title (take 10 articles ! i) \<noteq> []) [0..<min (length articles) 10]
      = filter (\<lambda>i. stripped_title (articles ! i) \<noteq> []) [0..<min (length articles) 10]"
    by (rule filter_cong) auto
  have m: "map (\<lambda>i. str_of_nat (1 + i) @ ascii ''. '' @ stripped_title (take 10 articles ! i))
        (filter (\<lambda>i. stripped_title (articles ! i) \<noteq> []) [0..<min (length articles) 10])
      = map (\<lambda>i. str_of_nat (1 + i) @ ascii ''. '' @ stripped_title (articles ! i))
        (filter (\<lambda>i. stripped_title (articles ! i) \<noteq> []) [0..<min (length articles) 10])"
    by (rule map_cong) auto
  have c: "numbered_titles 1 (take 10 articles) =
       map (\<lambda>i. str_of_nat (1 + i) @ ascii ''. '' @ stripped_title (articles ! i))
         (filter (\<lambda>i. stripped_title (articles ! i) \<noteq> []) [0..<min (length articles) 10])"
    unfolding numbered_titles_index [of 1 "take 10 articles"] length_take f m by (rule refl)
  from a b c show ?thesis by blast
qed

text \<open>
  A category of eleven records (titles with surrounding blanks), an empty category and
  the fallback category: the digest holds the heading and the first ten titles, stripped.
\<close>

theorem digest_first_ten_titles_witness:
  "prepare_news_text
     [(ascii ''Tech'', [[(''title'', PStr (ascii '' a ''))], [(''title'', PStr (ascii '' b ''))], [(''title'', PStr (ascii '' c ''))], [(''title'', PStr (ascii '' d ''))], [(''title'', PStr (ascii '' e ''))], [(''title'', PStr (ascii '' f ''))], [(''title'', PStr (ascii '' g ''))], [(''title'', PStr (ascii '' h ''))], [(''title'', PStr (ascii '' i ''))], [(''title'', PStr (ascii '' j ''))], [(''title'', PStr (ascii '' k ''))]]),
      (ascii ''Sports'', []),
      (fallback, [[(''title'', PStr (ascii ''u''))]])]
   = Inr (py_join [10]
       (digest_heading (ascii ''Tech'')
          [[(''title'', PStr (ascii '' a ''))], [(''title'', PStr (ascii '' b ''))], [(''title'', PStr (ascii '' c ''))], [(''title'', PStr (ascii '' d ''))], [(''title'', PStr (ascii '' e ''))], [(''title'', PStr (ascii '' f ''))], [(''title'', PStr (ascii '' g ''))], [(''title'', PStr (ascii '' h ''))], [(''title'', PStr (ascii '' i ''))], [(''title'', PStr (ascii '' j ''))], [(''title'', PStr (ascii '' k ''))]] #
        [ascii ''1. a'', ascii ''2. b'', ascii ''3. c'', ascii ''4. d'', ascii ''5. e'', ascii ''6. f'', ascii ''7. g'', ascii ''8. h'', ascii ''9. i'', ascii ''10. j'']))
   \<and> length (numbered_titles 1 (take 10
          [[(''title'', PStr (ascii '' a ''))], [(''title'', PStr (ascii '' b ''))], [(''title'', PStr (ascii '' c ''))], [(''title'', PStr (ascii '' d ''))], [(''title'', PStr (ascii '' e ''))], [(''title'', PStr (ascii '' f ''))], [(''title'', PStr (ascii '' g ''))], [(''title'', PStr (ascii '' h ''))], [(''title'', PStr (ascii '' i ''))], [(''title'', PStr (ascii '' j ''))], [(''title'', PStr (ascii '' k ''))]])) \<le> 10"
proof -
  have e: "prepare_news_text
     [(ascii ''Tech'', [[(''title'', PStr (ascii '' a ''))], [(''title'', PStr (ascii '' b ''))], [(''title'', PStr (ascii '' c ''))], [(''title'', PStr (ascii '' d ''))], [(''title'', PStr (ascii '' e ''))], [(''title'', PStr (ascii '' f ''))], [(''title'', PStr (ascii '' g ''))], [(''title'', PStr (ascii '' h ''))], [(''title'', PStr (ascii '' i ''))], [(''title'', PStr (ascii '' j ''))], [(''title'', PStr (ascii '' k ''))]]),
      (ascii ''Sports'', []),
      (fallback, [[(''title'', PStr (ascii ''u''))]])]
   = Inr (py_join [10]
       (digest_heading (ascii ''Tech'')
          [[(''title'', PStr (ascii '' a ''))], [(''title'', PStr (ascii '' b ''))], [(''title'', PStr (ascii '' c ''))], [(''title'', PStr (ascii '' d ''))], [(''title'', PStr (ascii '' e ''))], [(''title'', PStr (ascii '' f ''))], [(''title'', PStr (ascii '' g ''))], [(''title'', PStr (ascii '' h ''))], [(''title'', PStr (ascii '' i ''))], [(''title'', PStr (ascii '' j ''))], [(''title'', PStr (ascii '' k ''))]] #
        [ascii ''1. a'', ascii ''2. b'', ascii ''3. c'', ascii ''4. d'', ascii ''5. e'', ascii ''6. f'', ascii ''7. g'', ascii ''8. h'', ascii ''9. i'', ascii ''10. j'']))"
    by (simp add: prepare_news_text_def digest_heading_def Let_def dict_get_def py_strip_def
        is_space_def ascii_def fallback_def str_of_nat.simps)
  from e digest_first_ten_titles [where
     news_data = "[(ascii ''Tech'', [[(''title'', PStr (ascii '' a ''))], [(''title'', PStr (ascii '' b ''))], [(''title'', PStr (ascii '' c ''))], [(''title'', PStr (ascii '' d ''))], [(''title'', PStr (ascii '' e ''))], [(''title'', PStr (ascii '' f ''))], [(''title'', PStr (ascii '' g ''))], [(''title'', PStr (ascii '' h ''))], [(''title'', PStr (ascii '' i ''))], [(''title'', PStr (ascii '' j ''))], [(''title'', PStr (ascii '' k ''))]]),
      (ascii ''Sports'', []),
      (fallback, [[(''title'', PStr (ascii ''u''))]])]"
     and articles = "[[(''title'', PStr (ascii '' a ''))], [(''title'', PStr (ascii '' b ''))], [(''title'', PStr (ascii '' c ''))], [(''title'', PStr (ascii '' d ''))], [(''title'', PStr (ascii '' e ''))], [(''title'', PStr (ascii '' f ''))], [(''title'', PStr (ascii '' g ''))], [(''title'', PStr (ascii '' h ''))], [(''title'', PStr (ascii '' i ''))], [(''title'', PStr (ascii '' j ''))], [(''title'', PStr (ascii '' k ''))]]"]
  show ?thesis by blast
qed

text \<open>
  C10. The digest is that of the contributing categories alone: an entry of the fallback
  category and an entry with no records are passed over, and a record whose title is
  empty or consists of white space gives no line. When every record is in the fallback
  category the digest is the empty string, and \<open>generate_daily_summary\<close> returns the empty
  string without sending a request.
\<close>

theorem digest_excludes_fallback:
  "prepare_news_text news_data = prepare_news_text (digest_categories news_data)
   \<and> fallback \<notin> set (dict_keys (digest_categories news_data))
   \<and> [] \<notin> set (map snd (digest_categories news_data))
   \<and> prepare_parts ((fallback, articles) # rest) parts = prepare_parts rest parts
   \<and> prepare_parts ((category, []) # rest) parts = prepare_parts rest parts
   \<and> (dict_get a ''title'' (PStr []) = PStr t \<and> list_all is_space t \<longrightarrow>
        title_lines idx (a # articles) parts = title_lines (idx + 1) articles parts)
   \<and> (list_all (\<lambda>(category, articles). articles = [] \<or> category = fallback) news_data \<longrightarrow>
        prepare_news_text news_data = Inr [] \<and>
        generate_daily_summary self news_data w = (Inr [], w))"
proof -
  have a: "prepare_news_text news_data = prepare_news_text (digest_categories news_data)"
    by (simp only: prepare_news_text_closed digest_categories_idem)
  have b: "fallback \<notin> set (dict_keys (digest_categories news_data))"
    by (auto simp: dict_keys_def digest_categories_def)
  have c: "[] \<notin> set (map snd (digest_categories news_data))"
    by (auto simp: digest_categories_def)
  have d: "prepare_parts ((fallback, articles) # rest) parts = prepare_parts rest parts"
    "prepare_parts ((category, []) # rest) parts = prepare_parts rest parts"
    by simp_all
  have e: "title_lines idx (a # articles) parts = title_lines (idx + 1) articles parts"
    if "dict_get a ''title'' (PStr []) = PStr t" "list_all is_space t"
    using that py_strip_blank [of t] by simp
  have f: "prepare_news_text news_data = Inr [] \<and>
        generate_daily_summary self news_data w = (Inr [], w)"
    if "list_all (\<lambda>(category, articles). articles = [] \<or> category = fallback) news_data"
  proof -
    from that have "digest_categories news_data = []"
      by (auto simp: digest_categories_def filter_empty_conv list_all_iff)
    then have "prepare_news_text news_data = Inr []"
      by (simp add: prepare_news_text_closed)
    then show ?thesis
      by (simp add: generate_daily_summary_def py_strip_def)
  qed
  from a b c d e f show ?thesis by blast
qed

text \<open>
  Every record in the fallback category, and a service that would answer: no request is
  sent. A record with a blank title in another category gives no line.
\<close>

theorem digest_excludes_fallback_witness:
  "list_all (\<lambda>(category, articles). articles = [] \<or> category = fallback)
     [(ascii ''Tech'', []), (fallback, [[(''title'', PStr (ascii ''a''))]])] \<and>
   generate_daily_summary
     \<lparr>ds_config = [], ds_client = (\<lambda>mn mx t. Some (PStr (ascii ''summary'')))\<rparr>
     [(ascii ''Tech'', []), (fallback, [[(''title'', PStr (ascii ''a''))]])]
     \<lparr>requests = [], files = []\<rparr>
   = (Inr [], \<lparr>requests = [], files = []\<rparr>) \<and>
   dict_get [(''title'', PStr (ascii ''  ''))] ''title'' (PStr []) = PStr (ascii ''  '') \<and>
   list_all is_space (ascii ''  '') \<and>
   title_lines 1 [[(''title'', PStr (ascii ''  ''))], [(''title'', PStr (ascii ''b''))]] []
   = Inr [ascii ''2. b'']"
proof -
  have e1: "list_all (\<lambda>(category, articles). articles = [] \<or> category = fallback)
     [(ascii ''Tech'', []), (fallback, [[(''title'', PStr (ascii ''a''))]])]"
    by simp
  have e2: "dict_get [(''title'', PStr (ascii ''  ''))] ''title'' (PStr []) = PStr (ascii ''  '')"
    by (simp add: dict_get_def)
  have e3: "list_all is_space (ascii ''  '')"
    by (simp add: is_space_def ascii_def)
  have e4: "title_lines (1 + 1) [[(''title'', PStr (ascii ''b''))]] [] = Inr [ascii ''2. b'']"
    by (simp add: dict_get_def is_space_def ascii_def py_strip_def str_of_nat.simps)
  note t = digest_excludes_fallback [where
      news_data = "[(ascii ''Tech'', []), (fallback, [[(''title'', PStr (ascii ''a''))]])]"
      and a = "[(''title'', PStr (ascii ''  ''))]" and t = "ascii ''  ''" and idx = 1
      and articles = "[[(''title'', PStr (ascii ''b''))]]" and parts = "[]"
      and self = "\<lparr>ds_config = [], ds_client = (\<lambda>mn mx t. Some (PStr (ascii ''summary'')))\<rparr>"
      and w = "\<lparr>requests = [], files = []\<rparr>"]
  from t e1 have g: "generate_daily_summary
     \<lparr>ds_config = [], ds_client = (\<lambda>mn mx t. Some (PStr (ascii ''summary'')))\<rparr>
     [(ascii ''Tech'', []), (fallback, [[(''title'', PStr (ascii ''a''))]])]
     \<lparr>requests = [], files = []\<rparr>
   = (Inr [], \<lparr>requests = [], files = []\<rparr>)"
    by blast
  from t e2 e3 have s: "title_lines 1
      [[(''title'', PStr (ascii ''  ''))], [(''title'', PStr (ascii ''b''))]] []
     = title_lines (1 + 1) [[(''title'', PStr (ascii ''b''))]] []"
    by blast
  have s': "title_lines 1
      [[(''title'', PStr (ascii ''  ''))], [(''title'', PStr (ascii ''b''))]] []
     = Inr [ascii ''2. b'']"
    by (rule trans [OF s e4])
  show ?thesis
    by (intro conjI) (rule e1, rule g, rule e2, rule e3, rule s')
qed

section \<open>Properties of the adapters\<close>

text \<open>
  C5: every record that an adapter produces has a non-empty title, records with an empty
  title being discarded by the adapter. The hybrid scraper does not do this. The scraper
  in \<open>news_scraper.py\<close>, whose crawl loop it took over, skips an article without a title
  before it builds the record (\<open>if not article.title: continue\<close> in
  \<open>NewsScraper.scrape_news\<close>); neither \<open>scrape_from_newsapi\<close> nor \<open>fetch_from_source\<close>
  tests the title. In the example world NewsAPI answers with an item whose title is the
  empty string: the adapter turns it into the record \<open>example_untitled\<close>, and the crawl
  adapter likewise builds a record from an article whose parsed title is empty. The
  record passes deduplication and categorization, is in the result of \<open>scrape_news\<close>, and
  is printed in the report under the heading \<open>### 1.\<close> followed by nothing.
\<close>

theorem empty_title_reaches_report:
  "append_answer (ascii ''NewsAPI-us'')
     (top_headlines (example_env (Parsed (ConfigObject example_config)) None)
        (ascii ''us'') (ascii ''technology'')) []
     = Inr [example_untitled, example_cup]
   \<and> fetch_loop (ascii ''http://paper'')
        [Some \<lparr>np_title = [], np_url = ascii ''http://paper/2'',
               np_publish_date = None, np_text = []\<rparr>] []
      = [[(''title'', PStr []),
          (''url'', PStr (ascii ''http://paper/2'')),
          (''source'', PStr (ascii ''http://paper'')),
          (''publish_date'', PStr unknown_date),
          (''description'', PStr [])]]
   \<and> article_title example_untitled = PStr []
   \<and> init (example_env (Parsed (ConfigObject example_config)) None) (ascii ''config.json'')
      = Inr example_scraper
   \<and> scrape_news example_scraper (example_env (Parsed (ConfigObject example_config)) None)
        empty_world =
       (Inr [(ascii ''Tech'', [example_untitled]), (ascii ''Sports'', [example_final]),
             (fallback, [example_cup])],
        \<lparr>requests = [TopHeadlines (ascii ''us'') (ascii ''technology''),
                     SourceBuild (ascii ''http://paper'')],
         files = []\<rparr>)
   \<and> run example_scraper (example_env (Parsed (ConfigObject example_config)) None)
        (ascii ''output'') empty_world =
       (Inr (ascii ''output/news_daily_report_2024-05-02.md''),
        \<lparr>requests = [TopHeadlines (ascii ''us'') (ascii ''technology''),
                     SourceBuild (ascii ''http://paper'')],
         files = [(ascii ''output/news_daily_report_2024-05-02.md'',
                   example_report (ascii ''NewsAPI, Newspaper3k'') [] [])]\<rparr>)"
proof -
  have a: "append_answer (ascii ''NewsAPI-us'')
     (top_headlines (example_env (Parsed (ConfigObject example_config)) None)
        (ascii ''us'') (ascii ''technology'')) []
     = Inr [example_untitled, example_cup]"
    by (simp add: append_answer_def newsapi_record_def newsapi_source_name_def
        newsapi_publish_date_def example_env_def example_headlines_def json_get_def
        example_untitled_def example_cup_def dict_get_def unknown_date_def ascii_def)
  have b: "fetch_loop (ascii ''http://paper'')
        [Some \<lparr>np_title = [], np_url = ascii ''http://paper/2'',
               np_publish_date = None, np_text = []\<rparr>] []
      = [[(''title'', PStr []),
          (''url'', PStr (ascii ''http://paper/2'')),
          (''source'', PStr (ascii ''http://paper'')),
          (''publish_date'', PStr unknown_date),
          (''description'', PStr [])]]"
    by (simp add: np_record_def)
  have c: "article_title example_untitled = PStr []"
    by (simp add: article_title_def example_untitled_def dict_get_def)
  have d: "init (example_env (Parsed (ConfigObject example_config)) None) (ascii ''config.json'')
      = Inr example_scraper"
    by (simp add: init_def load_config_def example_env_def example_config_def
        example_scraper_def json_get_def Let_def ascii_def)
  have e: "scrape_news example_scraper (example_env (Parsed (ConfigObject example_config)) None)
        empty_world =
       (Inr [(ascii ''Tech'', [example_untitled]), (ascii ''Sports'', [example_final]),
             (fallback, [example_cup])],
        \<lparr>requests = [TopHeadlines (ascii ''us'') (ascii ''technology''),
                     SourceBuild (ascii ''http://paper'')],
         files = []\<rparr>)"
    by (simp add: scrape_news_def scrape_from_newsapi_def scrape_from_newspaper_def
        fetch_from_source_def slice_to_def np_record_def append_answer_def newsapi_record_def
        newsapi_source_name_def newsapi_publish_date_def keywords_items_def
        example_env_def example_headlines_def example_config_def example_scraper_def
        json_get_def Let_def empty_world_def example_untitled_def example_cup_def
        example_final_def categorize_news_def init_categories_def dict_append_def
        unique_articles_def article_url_def fallback_def categorize_article_def dict_keys_def
        match_keywords_def article_text_def dict_get_def ascii_lower_def unknown_date_def
        ascii_def)
  have f: "run example_scraper (example_env (Parsed (ConfigObject example_config)) None)
        (ascii ''output'') empty_world =
       (Inr (ascii ''output/news_daily_report_2024-05-02.md''),
        \<lparr>requests = [TopHeadlines (ascii ''us'') (ascii ''technology''),
                     SourceBuild (ascii ''http://paper'')],
         files = [(ascii ''output/news_daily_report_2024-05-02.md'',
                   example_report (ascii ''NewsAPI, Newspaper3k'') [] [])]\<rparr>)"
    by (simp add: example_scraper_def example_report_def
        run_def scrape_news_def scrape_from_newsapi_def
        scrape_from_newspaper_def fetch_from_source_def slice_to_def np_record_def
        append_answer_def newsapi_record_def newsapi_source_name_def newsapi_publish_date_def
        keywords_items_def example_env_def example_headlines_def example_config_def
        json_get_def Let_def empty_world_def categorize_news_def init_categories_def
        dict_append_def unique_articles_def article_url_def fallback_def
        categorize_article_def dict_keys_def match_keywords_def article_text_def dict_get_def
        ascii_lower_def generate_markdown_report_def request_summary_def
        str_of_nat.simps report_path_def path_div_def parse_path_def splitroot_def
        path_str_def report_header_def summary_section_def statistics_section_def
        report_footer_def render_article_def description_lines_def dict_lookup_def
        unknown_date_def ascii_def)
  from a b c d e f show ?thesis by (intro conjI)
qed

section \<open>Properties of construction: configuration errors\<close>




section \<open>Properties of the report and of the run\<close>

text \<open>
  C6: a failure of the summarizer does not stop the run, which then writes the report
  without the summary section. \<open>generate_daily_summary\<close> returns \<open>""\<close> on every exception
  of the request, but it builds the digest before its \<open>try\<close>, and \<open>_prepare_news_text\<close>
  strips \<open>article.get('title', '')\<close>, which is \<open>None\<close> for a record made from a NewsAPI
  item with \<open>"title": null\<close>. In the world where NewsAPI answers with such an item, the
  run with the summarizer enabled ends with \<open>AttributeError\<close> after the fetches and
  writes no report, while the same run with the summarizer switched off in the
  configuration writes the report (its first heading shows \<open>None\<close>). Where the titles
  are strings C6 holds at these inputs: a service whose call raises gives the
  report without the summary section, and a service that answers gives the report with
  it.
\<close>

theorem null_title_summary_failure_is_fatal:
  "construct_and_run
     (null_title_env (Parsed (ConfigObject example_config)) (Some example_service))
     (ascii ''config.json'') (ascii ''output'') empty_world
     = (Inl AttributeError,
        \<lparr>requests = [TopHeadlines (ascii ''us'') (ascii ''technology''),
                     SourceBuild (ascii ''http://paper'')],
         files = []\<rparr>)
   \<and> construct_and_run
        (null_title_env
           (Parsed (ConfigObject (example_config\<lparr>c_use_deepseek_summary := Some False\<rparr>)))
           (Some example_service))
        (ascii ''config.json'') (ascii ''output'') empty_world
      = (Inr (ascii ''output/news_daily_report_2024-05-02.md''),
         \<lparr>requests = [TopHeadlines (ascii ''us'') (ascii ''technology''),
                      SourceBuild (ascii ''http://paper'')],
          files = [(ascii ''output/news_daily_report_2024-05-02.md'',
                    example_report (ascii ''NewsAPI, Newspaper3k'') [] (ascii ''None''))]\<rparr>)
   \<and> construct_and_run
        (example_env (Parsed (ConfigObject example_config)) (Some failing_service))
        (ascii ''config.json'') (ascii ''output'') empty_world
      = (Inr (ascii ''output/news_daily_report_2024-05-02.md''),
         \<lparr>requests = [TopHeadlines (ascii ''us'') (ascii ''technology''),
                      SourceBuild (ascii ''http://paper''),
                      ChatCompletion 300 500 example_digest],
          files = [(ascii ''output/news_daily_report_2024-05-02.md'',
                    example_report (ascii ''NewsAPI, Newspaper3k, DeepSeek AI '' @ [0x6458, 0x8981]) [] [])]\<rparr>)
   \<and> construct_and_run
        (example_env (Parsed (ConfigObject example_config)) (Some example_service))
        (ascii ''config.json'') (ascii ''output'') empty_world
      = (Inr (ascii ''output/news_daily_report_2024-05-02.md''),
         \<lparr>requests = [TopHeadlines (ascii ''us'') (ascii ''technology''),
                      SourceBuild (ascii ''http://paper''),
                      ChatCompletion 300 500 example_digest],
          files = [(ascii ''output/news_daily_report_2024-05-02.md'',
                    example_report (ascii ''NewsAPI, Newspaper3k, DeepSeek AI '' @ [0x6458, 0x8981])
                      example_summary_lines [])]\<rparr>)"
proof -
  note run_defs = construct_and_run_def init_def load_config_def run_def scrape_news_def
    scrape_from_newsapi_def scrape_from_newspaper_def fetch_from_source_def slice_to_def
    np_record_def append_answer_def newsapi_record_def newsapi_source_name_def
    newsapi_publish_date_def keywords_items_def example_env_def example_headlines_def
    example_config_def json_get_def Let_def empty_world_def categorize_news_def
    init_categories_def dict_append_def unique_articles_def article_url_def fallback_def
    categorize_article_def dict_keys_def match_keywords_def article_text_def dict_get_def
    ascii_lower_def generate_markdown_report_def request_summary_def
    generate_daily_summary_def prepare_news_text_def digest_heading_def py_strip_def
    is_space_def str_of_nat.simps report_path_def path_div_def parse_path_def splitroot_def
    path_str_def report_header_def summary_section_def statistics_section_def
    report_footer_def render_article_def description_lines_def dict_lookup_def
    unknown_date_def
  have a: "construct_and_run
     (null_title_env (Parsed (ConfigObject example_config)) (Some example_service))
     (ascii ''config.json'') (ascii ''output'') empty_world
     = (Inl AttributeError,
        \<lparr>requests = [TopHeadlines (ascii ''us'') (ascii ''technology''),
                     SourceBuild (ascii ''http://paper'')],
         files = []\<rparr>)"
    by (simp add: null_title_env_def example_service_def run_defs ascii_def)
  have b: "construct_and_run
        (null_title_env
           (Parsed (ConfigObject (example_config\<lparr>c_use_deepseek_summary := Some False\<rparr>)))
           (Some example_service))
        (ascii ''config.json'') (ascii ''output'') empty_world
      = (Inr (ascii ''output/news_daily_report_2024-05-02.md''),
         \<lparr>requests = [TopHeadlines (ascii ''us'') (ascii ''technology''),
                      SourceBuild (ascii ''http://paper'')],
          files = [(ascii ''output/news_daily_report_2024-05-02.md'',
                    example_report (ascii ''NewsAPI, Newspaper3k'') [] (ascii ''None''))]\<rparr>)"
    by (simp add: null_title_env_def example_service_def example_report_def run_defs ascii_def)
  have c: "construct_and_run
        (example_env (Parsed (ConfigObject example_config)) (Some failing_service))
        (ascii ''config.json'') (ascii ''output'') empty_world
      = (Inr (ascii ''output/news_daily_report_2024-05-02.md''),
         \<lparr>requests = [TopHeadlines (ascii ''us'') (ascii ''technology''),
                      SourceBuild (ascii ''http://paper''),
                      ChatCompletion 300 500 example_digest],
          files = [(ascii ''output/news_daily_report_2024-05-02.md'',
                    example_report (ascii ''NewsAPI, Newspaper3k, DeepSeek AI '' @ [0x6458, 0x8981]) [] [])]\<rparr>)"
    by (simp add: failing_service_def example_digest_def example_report_def run_defs ascii_def)
  have d: "construct_and_run
        (example_env (Parsed (ConfigObject example_config)) (Some example_service))
        (ascii ''config.json'') (ascii ''output'') empty_world
      = (Inr (ascii ''output/news_daily_report_2024-05-02.md''),
         \<lparr>requests = [TopHeadlines (ascii ''us'') (ascii ''technology''),
                      SourceBuild (ascii ''http://paper''),
                      ChatCompletion 300 500 example_digest],
          files = [(ascii ''output/news_daily_report_2024-05-02.md'',
                    example_report (ascii ''NewsAPI, Newspaper3k, DeepSeek AI '' @ [0x6458, 0x8981])
                      example_summary_lines [])]\<rparr>)"
    by (simp add: example_service_def example_digest_def example_summary_lines_def
        example_report_def run_defs ascii_def)
  from a b c d show ?thesis by (intro conjI)
qed

end
